theory Spec2Isabelle
  imports Complex_Main "HOL-Library.Word"
begin

section \<open>The Genie inference server (genie-worldmodel/scripts/inference_server.py)\<close>

text \<open>
  A shallow embedding of \<^verbatim>\<open>GenieInferenceSession\<close>, \<^verbatim>\<open>handle_client\<close> and the part of
  \<^verbatim>\<open>main\<close> that wires one session to the websocket server.

  Tensors. A frame is a tensor of shape C x H x W, modelled as a nested list of reals; a
  video tensor of shape 1 x T x C x H x W is the list of its T frames (the batch dimension
  is 1 in every tensor the server builds). A float32 value is the real number it stands
  for, and each float32 operation rounds its exact result to the nearest float32; NaN
  and the infinities are not modelled. A tensor without frames has no shape in this
  model.

  The models. The video tokenizer, the latent action model and the dynamics model are
  loaded from checkpoints by code that is not part of the script; they are fields of the
  session, as in the class, and every one of their methods returns either an error (the
  exception it raised) or a value. A method is a function of its arguments: it keeps no
  state of its own between calls, and it does not write to the tensors it is given (the
  context of line 64 is a view of the history).
\<close>

subsection \<open>Errors\<close>

datatype error =
    RuntimeError string
  | ZeroDivisionError
  | IndexError
  | ModelError string
  | JSONDecodeError
  | AttributeError
  | TypeError
  | ValueError
  | OverflowError
  | ConnectionClosed

subsection \<open>Tensors\<close>

type_synonym frame = "real list list list"
type_synonym video = "frame list"
type_synonym image = "8 word list list list"

definition slice_from :: "'a list \<Rightarrow> int \<Rightarrow> 'a list" where
  \<comment> \<open>Python's \<^verbatim>\<open>xs[start:]\<close>: a negative start counts from the end, and the start is
      clipped to the bounds of the sequence\<close>
  "slice_from xs start =
     (let n = int (length xs);
          lower = (if start < 0 then max (n + start) 0 else min start n)
      in drop (nat lower) xs)"

definition index_last :: "'a list \<Rightarrow> error + 'a" where
  \<comment> \<open>\<^verbatim>\<open>xs[-1]\<close>\<close>
  "index_last xs = (if xs = [] then Inl IndexError else Inr (last xs))"

definition frame_shape :: "frame \<Rightarrow> nat \<times> nat \<times> nat" where
  \<comment> \<open>C, H and W of a frame\<close>
  "frame_shape f =
     (length f,
      (case f of [] \<Rightarrow> 0 | plane # _ \<Rightarrow> length plane),
      (case f of [] \<Rightarrow> 0 | plane # _ \<Rightarrow> (case plane of [] \<Rightarrow> 0 | row # _ \<Rightarrow> length row)))"

definition sizes_match :: "video \<Rightarrow> video \<Rightarrow> bool" where
  \<comment> \<open>the frames of a tensor all have its shape, so the first of each decides\<close>
  "sizes_match xs ys =
     (case xs of
        [] \<Rightarrow> True
      | x # _ \<Rightarrow> (case ys of [] \<Rightarrow> True | y # _ \<Rightarrow> frame_shape x = frame_shape y))"

definition torch_cat :: "video \<Rightarrow> video \<Rightarrow> error + video" where
  \<comment> \<open>\<^verbatim>\<open>torch.cat([xs, ys], dim=1)\<close>: the sizes other than the time must agree\<close>
  "torch_cat xs ys =
     (if sizes_match xs ys then Inr (xs @ ys)
      else Inl (RuntimeError ''Sizes of tensors must match except in dimension 1''))"

definition torch_tensor_int :: "int \<Rightarrow> error + int" where
  \<comment> \<open>\<^verbatim>\<open>torch.tensor([[[i]]])\<close>: an int64 tensor, which a Python integer beyond 64 bits
      does not fit\<close>
  "torch_tensor_int i = (if - (2 ^ 63) \<le> i \<and> i < 2 ^ 63 then Inr i else Inl ValueError)"

text \<open>
  Float32 arithmetic: the exact result is rounded to the nearest float32, a tie to the
  one with an even significand. The spacing of the float32 values around \<open>x\<close> is
  \<open>2 powi (e - 23)\<close>, where \<open>e\<close> is the exponent of \<open>x\<close>, from -126 (the subnormal values
  included) to 127. Results beyond the largest float32, which the hardware rounds to
  infinity, are not modelled: no operation of the script exceeds 255.
\<close>

definition round_half_even :: "real \<Rightarrow> int" where
  "round_half_even q =
     (let f = \<lfloor>q\<rfloor>; d = q - of_int f
      in if d < 1 / 2 then f else if 1 / 2 < d then f + 1 else if even f then f else f + 1)"

fun exponent_from :: "nat \<Rightarrow> int \<Rightarrow> real \<Rightarrow> int" where
  \<comment> \<open>the least exponent \<open>e' \<ge> e\<close> with \<open>x < 2 powi (e' + 1)\<close>, among the next \<open>n\<close>\<close>
  "exponent_from 0 e x = e"
| "exponent_from (Suc n) e x = (if x < 2 powi (e + 1) then e else exponent_from n (e + 1) x)"

definition float32 :: "real \<Rightarrow> real" where
  "float32 x =
     (let e = exponent_from 253 (- 126) \<bar>x\<bar>; ulp = 2 powi (e - 23)
      in of_int (round_half_even (x / ulp)) * ulp)"

definition clamp :: "real \<Rightarrow> real \<Rightarrow> real \<Rightarrow> real" where
  \<comment> \<open>\<^verbatim>\<open>v.clamp(lo, hi)\<close>\<close>
  "clamp lo hi v = min (max v lo) hi"

definition byte :: "real \<Rightarrow> 8 word" where
  \<comment> \<open>\<^verbatim>\<open>.byte()\<close>: the cast of a float to uint8 drops the fraction (it truncates towards
      zero); the integer is then reduced modulo 256\<close>
  "byte v = word_of_int (if 0 \<le> v then \<lfloor>v\<rfloor> else \<lceil>v\<rceil>)"

definition permute_1_2_0 :: "'a list list list \<Rightarrow> 'a list list list" where
  \<comment> \<open>\<^verbatim>\<open>.permute(1, 2, 0)\<close>: from C x H x W to H x W x C\<close>
  "permute_1_2_0 t = map transpose (transpose t)"

definition display :: "real \<Rightarrow> 8 word" where
  \<comment> \<open>lines 99-100, on one value: a float32 addition, a float32 multiplication, the cast\<close>
  "display v = byte (float32 (float32 (clamp (- 1) 1 v + 1) * 127.5))"

definition to_uint8_rgb :: "frame \<Rightarrow> image" where
  \<comment> \<open>lines 99-100: \<^verbatim>\<open>((f.clamp(-1, 1).cpu().float() + 1) * 127.5).byte().permute(1, 2, 0)\<close>\<close>
  "to_uint8_rgb f =
     permute_1_2_0
       (map (map (map byte))
         (map (map (map (\<lambda>v. float32 (v * 127.5))))
           (map (map (map (\<lambda>v. float32 (v + 1))))
             (map (map (map (clamp (- 1) 1))) f))))"

subsection \<open>The models\<close>

record ('i, 'l) quantizer =
  codebook_size :: int
  get_latents_from_indices :: "'i \<Rightarrow> int option \<Rightarrow> error + 'l"

record ('i, 'l) video_tokenizer =
  tokenize :: "video \<Rightarrow> error + 'i"
  vt_quantizer :: "('i, 'l) quantizer"
  detokenize :: "'l \<Rightarrow> error + video"

record 'c latent_action_model =
  lam_quantizer :: "(int, 'c) quantizer"

record ('i, 'l, 'c) dynamics_model =
  forward_inference ::
    "'l \<Rightarrow> int \<Rightarrow> int \<Rightarrow> ('i \<Rightarrow> error + 'l) \<Rightarrow> 'c option \<Rightarrow> real \<Rightarrow> bool \<Rightarrow> error + 'l"

text \<open>
  The arguments of \<open>forward_inference\<close> are, in this order: \<^verbatim>\<open>context_latents\<close>,
  \<^verbatim>\<open>prediction_horizon\<close>, \<^verbatim>\<open>num_steps\<close>, \<^verbatim>\<open>index_to_latents_fn\<close>, \<^verbatim>\<open>conditioning\<close>,
  \<^verbatim>\<open>temperature\<close>, and whether the call runs under bfloat16 autocast (\<^verbatim>\<open>self.amp\<close>).
  The action quantizer is indexed by the tensor \<^verbatim>\<open>[[[action_id]]]\<close>, modelled by its one
  element.
\<close>

subsection \<open>The session\<close>

record ('i, 'l, 'c) session =
  vt :: "('i, 'l) video_tokenizer"
  lam :: "'c latent_action_model option"
  dynamics :: "('i, 'l, 'c) dynamics_model"
  device :: string
  context_window :: int
  temperature :: real
  prediction_horizon :: int
  amp :: bool
  generated_frames :: "video option"

definition GenieInferenceSession ::
  "('i, 'l) video_tokenizer \<Rightarrow> 'c latent_action_model option \<Rightarrow> ('i, 'l, 'c) dynamics_model \<Rightarrow>
   string \<Rightarrow> int \<Rightarrow> real \<Rightarrow> int \<Rightarrow> bool \<Rightarrow> ('i, 'l, 'c) session" where
  "GenieInferenceSession video_tokenizer latent_action_model dynamics_model dev cw temp ph am =
     \<lparr> vt = video_tokenizer, lam = latent_action_model, dynamics = dynamics_model,
       device = dev, context_window = cw, temperature = temp, prediction_horizon = ph,
       amp = am, generated_frames = None \<rparr>"

definition set_initial_context :: "('i, 'l, 'c) session \<Rightarrow> video \<Rightarrow> ('i, 'l, 'c) session" where
  "set_initial_context s frames = s\<lparr>generated_frames := Some frames\<rparr>"

definition history_length :: "('i, 'l, 'c) session \<Rightarrow> nat" where
  \<comment> \<open>the time dimension of \<^verbatim>\<open>generated_frames\<close>; no frame before the first context is set\<close>
  "history_length s = (case generated_frames s of None \<Rightarrow> 0 | Some frames \<Rightarrow> length frames)"

subsection \<open>One step\<close>

text \<open>Every call of a model method is recorded with its arguments, in call order.\<close>

datatype ('i, 'l, 'c) call =
    TokenizeC video
  | VideoLatentsC 'i
  | ActionLatentsC int
  | ForwardInferenceC 'l int int "'c option" real bool
  | DetokenizeC 'l

definition model_call ::
  "('i, 'l, 'c) call \<Rightarrow> error + 'a \<Rightarrow> ('a \<Rightarrow> ('i, 'l, 'c) call list \<times> (error + 'b)) \<Rightarrow>
   ('i, 'l, 'c) call list \<times> (error + 'b)" where
  \<comment> \<open>a call that raises ends the computation; one that returns continues with its value\<close>
  "model_call c r k =
     (case r of
        Inl e \<Rightarrow> ([c], Inl e)
      | Inr x \<Rightarrow> (case k x of (cs, res) \<Rightarrow> (c # cs, res)))"

definition idx_to_latents :: "('i, 'l, 'c) session \<Rightarrow> 'i \<Rightarrow> error + 'l" where
  \<comment> \<open>the closure of lines 79-80\<close>
  "idx_to_latents s idx = get_latents_from_indices (vt_quantizer (vt s)) idx (Some (- 1))"

definition predict ::
  "('i, 'l, 'c) session \<Rightarrow> 'l \<Rightarrow> 'c option \<Rightarrow> ('i, 'l, 'c) call list \<times> (error + video)" where
  \<comment> \<open>lines 82-93\<close>
  "predict s video_latents action_latent =
     model_call
       (ForwardInferenceC video_latents (prediction_horizon s) 10 action_latent
          (temperature s) (amp s))
       (forward_inference (dynamics s) video_latents (prediction_horizon s) 10
          (idx_to_latents s) action_latent (temperature s) (amp s))
       (\<lambda>next_latents.
          model_call (DetokenizeC next_latents) (detokenize (vt s) next_latents)
            (\<lambda>next_frames. ([], Inr next_frames)))"

definition run_models ::
  "('i, 'l, 'c) session \<Rightarrow> video \<Rightarrow> int \<Rightarrow> ('i, 'l, 'c) call list \<times> (error + video)" where
  \<comment> \<open>lines 64-93: everything between the check of line 61 and the assignment of line 94\<close>
  "run_models s frames action_id =
     (let context = slice_from frames (- context_window s) in
      model_call (TokenizeC context) (tokenize (vt s) context)
        (\<lambda>video_indices.
           model_call (VideoLatentsC video_indices)
             (get_latents_from_indices (vt_quantizer (vt s)) video_indices None)
             (\<lambda>video_latents.
                let n_actions = (case lam s of Some m \<Rightarrow> codebook_size (lam_quantizer m) | None \<Rightarrow> 1) in
                if n_actions = 0 then ([], Inl ZeroDivisionError)
                else
                  let action_id = action_id mod n_actions in
                  (case lam s of
                     None \<Rightarrow> predict s video_latents None
                   | Some m \<Rightarrow>
                       (case torch_tensor_int action_id of
                          Inl e \<Rightarrow> ([], Inl e)
                        | Inr i \<Rightarrow>
                            model_call (ActionLatentsC i)
                              (get_latents_from_indices (lam_quantizer m) i None)
                              (\<lambda>action_latent. predict s video_latents (Some action_latent)))))))"

record ('i, 'l, 'c) outcome =
  session_after :: "('i, 'l, 'c) session"
  calls :: "('i, 'l, 'c) call list"
  returned :: "error + image"

definition step :: "('i, 'l, 'c) session \<Rightarrow> int \<Rightarrow> ('i, 'l, 'c) outcome" where
  "step s action_id =
     (case generated_frames s of
        None \<Rightarrow>
          \<lparr> session_after = s, calls = [],
            returned = Inl (RuntimeError ''Call set_initial_context first'') \<rparr>
      | Some frames \<Rightarrow>
          (case run_models s frames action_id of
             (cs, Inl e) \<Rightarrow> \<lparr> session_after = s, calls = cs, returned = Inl e \<rparr>
           | (cs, Inr next_frames) \<Rightarrow>
               (case torch_cat frames (slice_from next_frames (- prediction_horizon s)) of
                  Inl e \<Rightarrow> \<lparr> session_after = s, calls = cs, returned = Inl e \<rparr>
                | Inr history \<Rightarrow>
                    \<lparr> session_after = s\<lparr>generated_frames := Some history\<rparr>,
                      calls = cs,
                      returned =
                        (case index_last next_frames of
                           Inl e \<Rightarrow> Inl e
                         | Inr f \<Rightarrow> Inr (to_uint8_rgb f)) \<rparr>)))"

subsection \<open>The client handler\<close>

text \<open>
  \<^verbatim>\<open>json.loads\<close>, \<^verbatim>\<open>int\<close> on a string, the PNG encoder of PIL and \<^verbatim>\<open>websocket.send\<close> are
  library code: they are parameters of the handler, each returning an error or a value.
  A decoded JSON text is a value of the type \<open>json\<close>; an object is the list of its keys
  and values, and \<open>JNaN\<close> and \<open>JInfinity\<close> are the floats that \<^verbatim>\<open>json.loads\<close> makes of
  \<^verbatim>\<open>NaN\<close> and of \<^verbatim>\<open>Infinity\<close> or \<^verbatim>\<open>-Infinity\<close>.
\<close>

datatype json =
    JNull
  | JBool bool
  | JInt int
  | JFloat real
  | JNaN
  | JInfinity
  | JString string
  | JArray "json list"
  | JObject "(string \<times> json) list"

record 'b transport =
  json_loads :: "string \<Rightarrow> error + json"
  int_of_str :: "string \<Rightarrow> error + int"
  png_encode :: "image \<Rightarrow> error + 'b"
  send :: "'b \<Rightarrow> error + unit"

definition dict_get :: "json \<Rightarrow> string \<Rightarrow> json \<Rightarrow> error + json" where
  \<comment> \<open>\<^verbatim>\<open>data.get(key, default)\<close>: only a JSON object decodes to a value with a \<^verbatim>\<open>get\<close> method\<close>
  "dict_get data key dflt =
     (case data of
        JObject kvs \<Rightarrow> Inr (case map_of kvs key of Some v \<Rightarrow> v | None \<Rightarrow> dflt)
      | _ \<Rightarrow> Inl AttributeError)"

definition py_int :: "'b transport \<Rightarrow> json \<Rightarrow> error + int" where
  \<comment> \<open>\<^verbatim>\<open>int(v)\<close>\<close>
  "py_int io v =
     (case v of
        JInt i \<Rightarrow> Inr i
      | JBool b \<Rightarrow> Inr (if b then 1 else 0)
      | JFloat r \<Rightarrow> Inr (if 0 \<le> r then \<lfloor>r\<rfloor> else \<lceil>r\<rceil>)
      | JNaN \<Rightarrow> Inl ValueError
      | JInfinity \<Rightarrow> Inl OverflowError
      | JString str \<Rightarrow> int_of_str io str
      | _ \<Rightarrow> Inl TypeError)"

definition decode_action :: "'b transport \<Rightarrow> string \<Rightarrow> error + int" where
  \<comment> \<open>lines 115-116\<close>
  "decode_action io message =
     (case json_loads io message of
        Inl e \<Rightarrow> Inl e
      | Inr data \<Rightarrow>
          (case dict_get data ''action'' (JInt 0) of
             Inl e \<Rightarrow> Inl e
           | Inr v \<Rightarrow> py_int io v))"

definition frame_to_png_bytes :: "'b transport \<Rightarrow> image \<Rightarrow> error + 'b" where
  "frame_to_png_bytes io frame = png_encode io frame"

definition handle_message ::
  "'b transport \<Rightarrow> ('i, 'l, 'c) session \<Rightarrow> string \<Rightarrow> ('i, 'l, 'c) session \<times> (error + 'b)" where
  \<comment> \<open>the body of the loop, lines 115-119: the session it leaves, and the exception raised or
      the bytes sent\<close>
  "handle_message io s message =
     (case decode_action io message of
        Inl e \<Rightarrow> (s, Inl e)
      | Inr action_id \<Rightarrow>
          (let out = step s action_id in
           case returned out of
             Inl e \<Rightarrow> (session_after out, Inl e)
           | Inr frame \<Rightarrow>
               (case frame_to_png_bytes io frame of
                  Inl e \<Rightarrow> (session_after out, Inl e)
                | Inr png \<Rightarrow>
                    (case send io png of
                       Inl e \<Rightarrow> (session_after out, Inl e)
                     | Inr _ \<Rightarrow> (session_after out, Inr png)))))"

fun handle_loop ::
  "'b transport \<Rightarrow> ('i, 'l, 'c) session \<Rightarrow> string list \<Rightarrow>
   ('i, 'l, 'c) session \<times> 'b list \<times> error option" where
  \<comment> \<open>lines 113-120: the loop is inside the \<^verbatim>\<open>try\<close>, so the first exception leaves it\<close>
  "handle_loop io s [] = (s, [], None)"
| "handle_loop io s (m # ms) =
     (case handle_message io s m of
        (s', Inl e) \<Rightarrow> (s', [], Some e)
      | (s', Inr png) \<Rightarrow>
          (case handle_loop io s' ms of (s'', out, err) \<Rightarrow> (s'', png # out, err)))"

datatype console = ClientConnected | SessionError error | ClientDisconnected

definition handle_client ::
  "'b transport \<Rightarrow> ('i, 'l, 'c) session \<Rightarrow> string list \<Rightarrow>
   ('i, 'l, 'c) session \<times> 'b list \<times> console list" where
  \<comment> \<open>the messages are those the client sends until it closes the connection; the result
      is the session the handler leaves, the frames it sent and the lines it printed\<close>
  "handle_client io s messages =
     (case handle_loop io s messages of
        (s', out, err) \<Rightarrow>
          (s', out,
           [ClientConnected] @ (case err of None \<Rightarrow> [] | Some e \<Rightarrow> [SessionError e])
             @ [ClientDisconnected]))"

subsection \<open>The server\<close>

definition main_session ::
  "('i, 'l) video_tokenizer \<Rightarrow> 'c latent_action_model option \<Rightarrow> ('i, 'l, 'c) dynamics_model \<Rightarrow>
   string \<Rightarrow> int \<Rightarrow> real \<Rightarrow> int \<Rightarrow> bool \<Rightarrow> video \<Rightarrow> ('i, 'l, 'c) session" where
  \<comment> \<open>lines 161-175: the one session of the process, with its first context\<close>
  "main_session video_tokenizer latent_action_model dynamics_model dev cw temp ph am initial_frames =
     set_initial_context
       (GenieInferenceSession video_tokenizer latent_action_model dynamics_model dev cw temp ph am)
       initial_frames"

text \<open>
  Lines 180-185: every connection is handled by \<^verbatim>\<open>handle_client(ws, session)\<close> on the
  session of \<^verbatim>\<open>main\<close>. The handlers are coroutines of one event loop, and there is no
  \<^verbatim>\<open>await\<close> between the receipt of a message and the end of \<^verbatim>\<open>session.step\<close>: a run of
  the server is the sequence of the messages in the order in which they are read, each
  with the connection it came from. A message on a connection whose handler has returned
  is not read.
\<close>

record ('i, 'l, 'c, 'b) server =
  shared_session :: "('i, 'l, 'c) session"
  finished :: "nat list"
  delivered :: "(nat \<times> 'b) list"

fun serve ::
  "'b transport \<Rightarrow> ('i, 'l, 'c, 'b) server \<Rightarrow> (nat \<times> string) list \<Rightarrow> ('i, 'l, 'c, 'b) server" where
  "serve io sv [] = sv"
| "serve io sv ((c, m) # evs) =
     (if c \<in> set (finished sv) then serve io sv evs
      else
        (case handle_message io (shared_session sv) m of
           (s', Inl e) \<Rightarrow> serve io (sv\<lparr>shared_session := s', finished := c # finished sv\<rparr>) evs
         | (s', Inr png) \<Rightarrow>
             serve io (sv\<lparr>shared_session := s', delivered := delivered sv @ [(c, png)]\<rparr>) evs))"

definition start :: "('i, 'l, 'c) session \<Rightarrow> ('i, 'l, 'c, 'b) server" where
  "start s = \<lparr> shared_session = s, finished = [], delivered = [] \<rparr>"

definition frames_of :: "nat \<Rightarrow> ('i, 'l, 'c, 'b) server \<Rightarrow> 'b list" where
  \<comment> \<open>what the client of connection \<open>c\<close> has received\<close>
  "frames_of c sv = map snd (filter (\<lambda>p. fst p = c) (delivered sv))"

subsection \<open>Notions used to state the properties\<close>

definition conditioned :: "('i, 'l, 'c) session \<Rightarrow> int \<Rightarrow> 'c option \<Rightarrow> bool" where
  \<comment> \<open>lines 71-77 leave \<^verbatim>\<open>action_latent\<close> equal to \<open>cond\<close>: nothing without an action model,
      and with one the latent that its quantizer returns for the id modulo the codebook
      size\<close>
  "conditioned s action_id cond =
     (case lam s of
        None \<Rightarrow> cond = None
      | Some m \<Rightarrow>
          codebook_size (lam_quantizer m) \<noteq> 0
          \<and> - (2 ^ 63) \<le> action_id mod codebook_size (lam_quantizer m)
          \<and> action_id mod codebook_size (lam_quantizer m) < 2 ^ 63
          \<and> (case cond of
                None \<Rightarrow> False
              | Some action_latent \<Rightarrow>
                  get_latents_from_indices (lam_quantizer m)
                      (action_id mod codebook_size (lam_quantizer m)) None
                    = Inr action_latent))"

definition shaped_like :: "video \<Rightarrow> video \<Rightarrow> bool" where
  \<comment> \<open>the frames of \<open>ys\<close> have the shape of those of \<open>xs\<close>, of which there is one at least\<close>
  "shaped_like xs ys = (xs \<noteq> [] \<and> list_all (\<lambda>y. list_all (\<lambda>x. frame_shape y = frame_shape x) xs) ys)"

fun action_lookups :: "('i, 'l, 'c) call list \<Rightarrow> int list" where
  \<comment> \<open>the ids with which the action quantizer was called\<close>
  "action_lookups [] = []"
| "action_lookups (ActionLatentsC i # cs) = i # action_lookups cs"
| "action_lookups (c # cs) = action_lookups cs"

fun steps :: "('i, 'l, 'c) session \<Rightarrow> int list \<Rightarrow> ('i, 'l, 'c) session option" where
  \<comment> \<open>a caller that steps once per action: the session reached when every step returns a
      frame, \<open>None\<close> as soon as one raises\<close>
  "steps s [] = Some s"
| "steps s (a # as) =
     (case returned (step s a) of
        Inl e \<Rightarrow> None
      | Inr img \<Rightarrow> steps (session_after (step s a)) as)"

definition display_spec :: "real \<Rightarrow> int" where
  \<comment> \<open>the conversion as the specification writes it:
      \<^verbatim>\<open>clamp(round((latent_val + 1) * 127.5), 0, 255)\<close>\<close>
  "display_spec v = max 0 (min 255 (round ((v + 1) * 127.5)))"

subsection \<open>Test doubles\<close>

text \<open>
  Deterministic models for the concrete runs below. Indices and latents are the frames
  themselves; the dynamics model returns the context followed by the predicted frames,
  each the negation of the last context frame; the action codebook has three entries.
\<close>

definition fake_vt :: "(video, video) video_tokenizer" where
  "fake_vt =
     \<lparr> tokenize = (\<lambda>v. Inr v),
       vt_quantizer = \<lparr> codebook_size = 8, get_latents_from_indices = (\<lambda>i d. Inr i) \<rparr>,
       detokenize = (\<lambda>l. Inr l) \<rparr>"

definition fake_lam :: "int latent_action_model" where
  "fake_lam =
     \<lparr> lam_quantizer = \<lparr> codebook_size = 3, get_latents_from_indices = (\<lambda>i d. Inr i) \<rparr> \<rparr>"

definition fake_dynamics :: "(video, video, int) dynamics_model" where
  "fake_dynamics =
     \<lparr> forward_inference = (\<lambda>ctx h n f cond temp am.
         Inr (ctx @ replicate (nat h) (map (map (map uminus)) (last ctx)))) \<rparr>"

definition one_frame_dynamics :: "(video, video, int) dynamics_model" where
  \<comment> \<open>a dynamics model that returns one predicted frame whatever the horizon\<close>
  "one_frame_dynamics =
     \<lparr> forward_inference = (\<lambda>ctx h n f cond temp am. Inr [map (map (map uminus)) (last ctx)]) \<rparr>"

definition broken_dynamics :: "(video, video, int) dynamics_model" where
  "broken_dynamics =
     \<lparr> forward_inference = (\<lambda>ctx h n f cond temp am. Inl (ModelError ''device'')) \<rparr>"

definition fake_session :: "int \<Rightarrow> int \<Rightarrow> (video, video, int) session" where
  "fake_session w h = GenieInferenceSession fake_vt (Some fake_lam) fake_dynamics ''cpu'' w 0.5 h True"

definition fake_io :: "image transport" where
  \<open>fake_io =
     \<lparr> json_loads = (\<lambda>m.
         if m = ''{"action": 1}'' then Inr (JObject [(''action'', JInt 1)])
         else if m = ''{"action": 4}'' then Inr (JObject [(''action'', JInt 4)])
         else if m = ''{"action": "left"}'' then Inr (JObject [(''action'', JString ''left'')])
         else Inl JSONDecodeError),
       int_of_str = (\<lambda>s. if s = ''7'' then Inr 7 else Inl ValueError),
       png_encode = (\<lambda>img. Inr img),
       send = (\<lambda>b. Inr ()) \<rparr>\<close>

definition seeded :: "(video, video, int) session" where
  \<comment> \<open>window 2, horizon 1, two seed frames\<close>
  "seeded = main_session fake_vt (Some fake_lam) fake_dynamics ''cpu'' 2 0.5 1 True
              [[[[1]]], [[[- 1]]]]"

definition short_decoder :: "(video, video, int) session" where
  \<comment> \<open>horizon 2, on a dynamics model that predicts one frame\<close>
  "short_decoder = main_session fake_vt (Some fake_lam) one_frame_dynamics ''cpu'' 2 0.5 2 True
                     [[[[1]]], [[[- 1]]]]"

definition broken :: "(video, video, int) session" where
  "broken = main_session fake_vt (Some fake_lam) broken_dynamics ''cpu'' 2 0.5 1 True
              [[[[1]]], [[[- 1]]]]"

definition short_seed :: "(video, video, int) session" where
  \<comment> \<open>window 2, one seed frame\<close>
  "short_seed = main_session fake_vt (Some fake_lam) fake_dynamics ''cpu'' 2 0.5 1 True [[[[0]]]]"

definition rgb_io :: "image transport" where
  \<comment> \<open>the test transport with an encoder that, as \<^verbatim>\<open>Image.fromarray\<close> does for uint8 arrays
      of three dimensions, takes pixels of two, three or four channels only\<close>
  "rgb_io =
     fake_io\<lparr>png_encode :=
       (\<lambda>img. if list_all (list_all (\<lambda>px. length px \<in> {2, 3, 4})) img then Inr img
               else Inl TypeError)\<rparr>"

definition rgb_seeded :: "(video, video, int) session" where
  \<comment> \<open>window 2, horizon 1, two seed frames of three channels: a white pixel, a black one\<close>
  "rgb_seeded = main_session fake_vt (Some fake_lam) fake_dynamics ''cpu'' 2 0.5 1 True
                  [[[[1]], [[1]], [[1]]], [[[- 1]], [[- 1]], [[- 1]]]]"

definition rgb_seeded3 :: "(video, video, int) session" where
  \<comment> \<open>that session after one step, and after two\<close>
  "rgb_seeded3 =
     rgb_seeded\<lparr>generated_frames :=
       Some [[[[1]], [[1]], [[1]]], [[[- 1]], [[- 1]], [[- 1]]], [[[1]], [[1]], [[1]]]]\<rparr>"

definition rgb_seeded4 :: "(video, video, int) session" where
  "rgb_seeded4 =
     rgb_seeded\<lparr>generated_frames :=
       Some [[[[1]], [[1]], [[1]]], [[[- 1]], [[- 1]], [[- 1]]], [[[1]], [[1]], [[1]]],
             [[[- 1]], [[- 1]], [[- 1]]]]\<rparr>"

definition deaf_vt :: "(video, video) video_tokenizer" where
  \<comment> \<open>a tokenizer whose \<^verbatim>\<open>tokenize\<close> raises\<close>
  "deaf_vt = fake_vt\<lparr>tokenize := (\<lambda>v. Inl (ModelError ''tokenizer''))\<rparr>"

definition mute_vt :: "(video, video) video_tokenizer" where
  \<comment> \<open>a tokenizer whose \<^verbatim>\<open>detokenize\<close> raises\<close>
  "mute_vt = fake_vt\<lparr>detokenize := (\<lambda>l. Inl (ModelError ''decoder''))\<rparr>"

definition strict_lam :: "int latent_action_model" where
  \<comment> \<open>an action model that knows entry 1 only\<close>
  "strict_lam =
     \<lparr> lam_quantizer =
         \<lparr> codebook_size = 3,
           get_latents_from_indices =
             (\<lambda>i d. if i = 1 \<and> d = None then Inr 7 else Inl (ModelError ''index'')) \<rparr> \<rparr>"

definition strict_dynamics :: "(video, video, int) dynamics_model" where
  \<comment> \<open>a dynamics model that raises unless it is given two context frames, horizon 1, ten
      steps, a working callback, the latent of entry 1, temperature 0.5 and autocast\<close>
  "strict_dynamics =
     \<lparr> forward_inference = (\<lambda>ctx h n f cond temp am.
         if length ctx = 2 \<and> h = 1 \<and> n = 10 \<and> f ctx = Inr ctx \<and> cond = Some 7 \<and> temp = 0.5 \<and> am
         then Inr (ctx @ [map (map (map uminus)) (last ctx)])
         else Inl (ModelError ''arguments'')) \<rparr>"

definition deaf :: "(video, video, int) session" where
  "deaf = main_session deaf_vt (Some fake_lam) fake_dynamics ''cpu'' 2 0.5 1 True
            [[[[1]]], [[[- 1]]]]"

definition mute :: "(video, video, int) session" where
  "mute = main_session mute_vt (Some fake_lam) fake_dynamics ''cpu'' 2 0.5 1 True
            [[[[1]]], [[[- 1]]]]"

definition strict :: "(video, video, int) session" where
  "strict = main_session fake_vt (Some strict_lam) strict_dynamics ''cpu'' 2 0.5 1 True
              [[[[1]]], [[[- 1]]]]"

definition strict4 :: "(video, video, int) session" where
  \<comment> \<open>the strict session after two steps\<close>
  "strict4 = strict\<lparr>generated_frames := Some [[[[1]]], [[[- 1]]], [[[1]]], [[[- 1]]]]\<rparr>"

section \<open>Properties\<close>

subsection \<open>Float32 rounding\<close>

lemma exponent_from_eq:
  "e = e0 + int k \<Longrightarrow> k \<le> n \<Longrightarrow> (k < n \<Longrightarrow> x < 2 powi (e + 1)) \<Longrightarrow>
   (\<And>e'. e0 \<le> e' \<Longrightarrow> e' < e \<Longrightarrow> 2 powi (e' + 1) \<le> x) \<Longrightarrow> exponent_from n e0 x = e"
proof (induction n e0 x arbitrary: k rule: exponent_from.induct)
  case (1 e0 x)
  then show ?case by simp
next
  case (2 n e0 x)
  show ?case
  proof (cases k)
    case 0
    with "2.prems" show ?thesis by simp
  next
    case (Suc k')
    with "2.prems" have a: "\<not> x < 2 powi (e0 + 1)"
      by (simp add: not_less)
    from Suc "2.prems" have "exponent_from n (e0 + 1) x = e"
      by (intro "2.IH" [of k'] a) auto
    with a show ?thesis by simp
  qed
qed

lemma exponent_binade:
  assumes "- 126 \<le> e" "e \<le> 127" "2 powi e \<le> x" "x < 2 powi (e + 1)"
  shows "exponent_from 253 (- 126) x = e"
proof (rule exponent_from_eq [where k = "nat (e + 126)"])
  fix e' :: int
  assume "- 126 \<le> e'" "e' < e"
  then have "(2::real) powi (e' + 1) \<le> 2 powi e"
    by (intro power_int_increasing) auto
  with assms(3) show "2 powi (e' + 1) \<le> x" by simp
qed (use assms in auto)

lemma exponent_from_spec:
  "x < 2 powi (e0 + int n + 1) \<Longrightarrow>
   e0 \<le> exponent_from n e0 x \<and> exponent_from n e0 x \<le> e0 + int n
   \<and> x < 2 powi (exponent_from n e0 x + 1)
   \<and> (exponent_from n e0 x = e0 \<or> 2 powi (exponent_from n e0 x) \<le> x)"
proof (induction n e0 x rule: exponent_from.induct)
  case (1 e x)
  then show ?case by simp
next
  case (2 n e x)
  show ?case
  proof (cases "x < 2 powi (e + 1)")
    case True
    then show ?thesis by simp
  next
    case False
    from "2.prems" have "x < 2 powi (e + 1 + int n + 1)"
      by (simp add: add.commute add.left_commute)
    from "2.IH" [OF False this] False show ?thesis
      by (auto simp: not_less)
  qed
qed

lemma exponent_spec:
  assumes "x < 2 powi 128"
  defines "e \<equiv> exponent_from 253 (- 126) x"
  shows "- 126 \<le> e" "e \<le> 127" "x < 2 powi (e + 1)" "e = - 126 \<or> 2 powi e \<le> x"
  using exponent_from_spec [of x "- 126" 253] assms by simp_all

lemma round_half_even_le: "q \<le> of_int n \<Longrightarrow> round_half_even q \<le> n"
  unfolding round_half_even_def Let_def by (auto split: if_splits | linarith)+

lemma round_half_even_ge: "of_int n \<le> q \<Longrightarrow> n \<le> round_half_even q"
  unfolding round_half_even_def Let_def by (auto split: if_splits | linarith)+

lemma round_half_even_near: "\<bar>of_int (round_half_even q) - q\<bar> \<le> 1 / 2"
  unfolding round_half_even_def Let_def by (auto split: if_splits | linarith)+

lemma float32_eq:
  "0 \<le> x \<Longrightarrow>
   float32 x = of_int (round_half_even (x / 2 powi (exponent_from 253 (- 126) x - 23)))
                 * 2 powi (exponent_from 253 (- 126) x - 23)"
  by (simp add: float32_def Let_def)

text \<open>A value in the binade of \<open>e\<close>.\<close>

lemma float32_binade:
  assumes "- 126 \<le> e" "e \<le> 127" "2 powi e \<le> x" "x < 2 powi (e + 1)"
  shows "float32 x = of_int (round_half_even (x / 2 powi (e - 23))) * 2 powi (e - 23)"
proof -
  have "(0::real) < 2 powi e" by simp
  with assms(3) have "0 \<le> x" by linarith
  with exponent_binade [OF assms] show ?thesis
    by (simp add: float32_eq)
qed

lemma float32_nonneg:
  assumes "0 \<le> x"
  shows "0 \<le> float32 x"
proof -
  have "0 \<le> x / 2 powi (exponent_from 253 (- 126) x - 23)"
    using assms by simp
  then have "0 \<le> round_half_even (x / 2 powi (exponent_from 253 (- 126) x - 23))"
    using round_half_even_ge [of 0] by simp
  with assms show ?thesis
    by (simp add: float32_eq)
qed

text \<open>Rounding does not pass a float32 value: \<open>m * 2 powi (k - 23)\<close> with 24 bits of \<open>m\<close>.\<close>

lemma float32_le_float:
  assumes x: "0 \<le> x" "x \<le> of_int m * 2 powi (k - 23)"
    and m: "2 ^ 23 \<le> m" "m < 2 ^ 24" and k: "- 126 \<le> k" "k \<le> 127"
  shows "float32 x \<le> of_int m * 2 powi (k - 23)"
proof -
  let ?b = "of_int m * 2 powi (k - 23) :: real"
  define e where "e = exponent_from 253 (- 126) x"
  have p: "(2::real) powi (k + 1) = 2 ^ 24 * 2 powi (k - 23)"
    "(2::real) powi k = 2 ^ 23 * 2 powi (k - 23)"
    by (simp_all add: power_int_diff power_int_add)
  from m have mr: "(2::real) ^ 23 \<le> of_int m" "of_int m < (2::real) ^ 24"
    by (metis of_int_le_iff of_int_numeral of_int_power,
        metis of_int_less_iff of_int_numeral of_int_power)
  from mr have b: "2 powi k \<le> ?b" "?b < 2 powi (k + 1)"
    unfolding p by (simp_all add: mult_right_mono)
  from k have "(2::real) powi (k + 1) \<le> 2 powi 128"
    by (intro power_int_increasing) auto
  with b x have "x < 2 powi 128" by linarith
  note sp = exponent_spec [OF this, folded e_def]
  have fl: "float32 x = of_int (round_half_even (x / 2 powi (e - 23))) * 2 powi (e - 23)"
    using x(1) by (simp add: float32_eq e_def)
  have ek: "e \<le> k"
  proof (rule ccontr)
    assume "\<not> e \<le> k"
    then have "k + 1 \<le> e" by simp
    then have "(2::real) powi (k + 1) \<le> 2 powi e"
      by (intro power_int_increasing) auto
    moreover from \<open>k + 1 \<le> e\<close> k sp(4) have "2 powi e \<le> x" by auto
    ultimately show False using b x by linarith
  qed
  show ?thesis
  proof (cases "e = k")
    case True
    from x(2) have "x / 2 powi (k - 23) \<le> of_int m"
      by (simp add: pos_divide_le_eq)
    then have "round_half_even (x / 2 powi (k - 23)) \<le> m"
      by (rule round_half_even_le)
    then have "(of_int (round_half_even (x / 2 powi (k - 23))) :: real) \<le> of_int m"
      by simp
    with True fl show ?thesis
      by (simp add: mult_right_mono)
  next
    case False
    with ek have "e + 1 \<le> k" by simp
    then have le: "(2::real) powi (e + 1) \<le> 2 powi k"
      by (intro power_int_increasing) auto
    have "(2::real) powi (e + 1) = 2 ^ 24 * 2 powi (e - 23)"
      by (simp add: power_int_diff power_int_add)
    with sp(3) have "x / 2 powi (e - 23) \<le> of_int (2 ^ 24)"
      by (simp add: pos_divide_le_eq)
    then have "round_half_even (x / 2 powi (e - 23)) \<le> 2 ^ 24"
      by (rule round_half_even_le)
    then have "(of_int (round_half_even (x / 2 powi (e - 23))) :: real) \<le> 2 ^ 24"
      by (metis of_int_le_iff of_int_numeral of_int_power)
    then have "float32 x \<le> 2 ^ 24 * 2 powi (e - 23)"
      unfolding fl by (simp add: mult_right_mono)
    also have "\<dots> = 2 powi (e + 1)"
      by (simp add: power_int_diff power_int_add)
    finally show ?thesis using le b by linarith
  qed
qed

text \<open>The rounding error is at most half the spacing.\<close>

lemma float32_error:
  assumes "0 \<le> x" "x < 2 powi (k + 1)" "- 126 \<le> k" "k \<le> 127"
  shows "\<bar>float32 x - x\<bar> \<le> 2 powi (k - 24)"
proof -
  define e where "e = exponent_from 253 (- 126) x"
  define u :: real where "u = 2 powi (e - 23)"
  from assms have "(2::real) powi (k + 1) \<le> 2 powi 128"
    by (intro power_int_increasing) auto
  with assms have "x < 2 powi 128" by linarith
  note sp = exponent_spec [OF this, folded e_def]
  have ek: "e \<le> k"
  proof (rule ccontr)
    assume "\<not> e \<le> k"
    then have "k + 1 \<le> e" by simp
    then have "(2::real) powi (k + 1) \<le> 2 powi e"
      by (intro power_int_increasing) auto
    moreover from \<open>k + 1 \<le> e\<close> assms sp(4) have "2 powi e \<le> x" by auto
    ultimately show False using assms by linarith
  qed
  have u: "0 < u" by (simp add: u_def)
  have "float32 x - x = (of_int (round_half_even (x / u)) - x / u) * u"
    using assms(1) u by (simp add: float32_eq e_def u_def algebra_simps)
  then have "\<bar>float32 x - x\<bar> = \<bar>of_int (round_half_even (x / u)) - x / u\<bar> * u"
    using u by (simp add: abs_mult)
  also have "\<dots> \<le> 1 / 2 * u"
    using round_half_even_near [of "x / u"] u by (intro mult_right_mono) auto
  also have "\<dots> = 2 powi (e - 24)"
    by (simp add: u_def power_int_diff)
  also from ek have "\<dots> \<le> 2 powi (k - 24)"
    by (intro power_int_increasing) auto
  finally show ?thesis .
qed

lemma float32_two: "float32 2 = 2"
  using float32_binade [of 1 2] by (simp add: round_half_even_def)

lemma float32_one: "float32 1 = 1"
  using float32_binade [of 0 1] by (simp add: round_half_even_def)

lemma float32_zero: "float32 0 = 0"
  by (simp add: float32_def round_half_even_def)

lemma float32_255: "float32 255 = 255"
  using float32_binade [of 7 255] by (simp add: round_half_even_def)

lemma float32_half255: "float32 127.5 = 127.5"
  using float32_binade [of 6 "127.5"] by (simp add: round_half_even_def)

subsection \<open>The conversion of one value\<close>

lemma shifted_range: "0 \<le> float32 (clamp (- 1) 1 v + 1) \<and> float32 (clamp (- 1) 1 v + 1) \<le> 2"
proof -
  have c: "0 \<le> clamp (- 1) 1 v + 1" "clamp (- 1) 1 v + 1 \<le> 2"
    by (simp_all add: clamp_def min_def max_def)
  from c(2) have "clamp (- 1) 1 v + 1 \<le> of_int (2 ^ 23) * 2 powi (1 - 23)"
    by simp
  from float32_le_float [OF c(1) this] float32_nonneg [OF c(1)] show ?thesis
    by simp
qed

lemma scaled_range:
  "0 \<le> float32 (float32 (clamp (- 1) 1 v + 1) * 127.5)
   \<and> float32 (float32 (clamp (- 1) 1 v + 1) * 127.5) \<le> 255"
proof -
  let ?y = "float32 (clamp (- 1) 1 v + 1) * 127.5"
  from shifted_range [of v] have y: "0 \<le> ?y" "?y \<le> 255"
    by simp_all
  from y(2) have "?y \<le> of_int 16711680 * 2 powi (7 - 23)"
    by simp
  from float32_le_float [OF y(1) this] float32_nonneg [OF y(1)] show ?thesis
    by simp
qed

lemma uint_display:
  "uint (display v) = \<lfloor>float32 (float32 (clamp (- 1) 1 v + 1) * 127.5)\<rfloor>"
proof -
  let ?x = "float32 (float32 (clamp (- 1) 1 v + 1) * 127.5)"
  from scaled_range [of v] have "0 \<le> \<lfloor>?x\<rfloor>" "\<lfloor>?x\<rfloor> \<le> 255"
    by (simp_all add: le_floor_iff floor_le_iff)
  then have "\<lfloor>?x\<rfloor> mod 256 = \<lfloor>?x\<rfloor>" by simp
  with scaled_range [of v] show ?thesis
    by (simp add: display_def byte_def uint_word_of_int)
qed

lemma display_low: "v \<le> - 1 \<Longrightarrow> display v = 0"
  by (simp add: display_def byte_def clamp_def float32_zero)

lemma display_high: "1 \<le> v \<Longrightarrow> display v = 255"
  by (simp add: display_def byte_def clamp_def float32_two float32_255)

lemma display_zero: "display 0 = 127"
proof -
  have s1: "clamp (- 1) 1 0 + 1 = 1" by (simp add: clamp_def)
  have s2: "1 * 127.5 = (127.5 :: real)" by simp
  have s3: "byte 127.5 = 127" by (simp add: byte_def)
  show ?thesis
    unfolding display_def s1 float32_one s2 float32_half255 s3 ..
qed

lemma display_error:
  "\<bar>float32 (float32 (clamp (- 1) 1 v + 1) * 127.5) - (clamp (- 1) 1 v + 1) * 127.5\<bar> < 1 / 2"
proof -
  let ?x = "clamp (- 1) 1 v + 1"
  let ?y = "float32 ?x * 127.5"
  have c: "0 \<le> ?x" "?x \<le> 2"
    by (simp_all add: clamp_def min_def max_def)
  then have "?x < 2 powi (1 + 1)" by simp
  from float32_error [OF c(1) this] have e1: "\<bar>float32 ?x - ?x\<bar> \<le> 2 powi (- 23)"
    by simp
  from shifted_range [of v] have y: "0 \<le> ?y" "?y < 2 powi (7 + 1)"
    by simp_all
  from float32_error [OF y] have e2: "\<bar>float32 ?y - ?y\<bar> \<le> 2 powi (- 17)"
    by simp
  have "\<bar>?y - ?x * 127.5\<bar> = \<bar>float32 ?x - ?x\<bar> * 127.5"
    by (simp add: abs_if algebra_simps)
  with e1 have "\<bar>?y - ?x * 127.5\<bar> \<le> 2 powi (- 23) * 127.5"
    by simp
  with e2 have "\<bar>float32 ?y - ?x * 127.5\<bar> \<le> 2 powi (- 23) * 127.5 + 2 powi (- 17)"
    by linarith
  also have "\<dots> < 1 / 2" by simp
  finally show ?thesis .
qed

lemma display_near_spec:
  "display_spec v - 1 \<le> uint (display v) \<and> uint (display v) \<le> display_spec v"
proof -
  consider "v \<le> - 1" | "1 \<le> v" | "- 1 < v" "v < 1" by linarith
  then show ?thesis
  proof cases
    case 1
    then have "(v + 1) * 127.5 \<le> 0" by simp
    then have "round ((v + 1) * 127.5) \<le> 0" unfolding round_def by linarith
    with 1 show ?thesis by (simp add: display_low display_spec_def)
  next
    case 2
    then have "255 \<le> (v + 1) * 127.5" by simp
    then have "255 \<le> round ((v + 1) * 127.5)" unfolding round_def by linarith
    with 2 show ?thesis by (simp add: display_high display_spec_def)
  next
    case 3
    let ?X = "(v + 1) * 127.5"
    let ?x = "float32 (float32 (clamp (- 1) 1 v + 1) * 127.5)"
    from 3 have cl: "clamp (- 1) 1 v = v" by (simp add: clamp_def)
    from 3 have X: "0 \<le> ?X" "?X \<le> 255" by simp_all
    from display_error [of v] cl have d: "\<bar>?x - ?X\<bar> < 1 / 2" by simp
    from X have "0 \<le> round ?X" "round ?X \<le> 255"
      unfolding round_def by linarith+
    then have sp: "display_spec v = round ?X"
      by (simp add: display_spec_def)
    from d have "\<lfloor>?x\<rfloor> \<le> round ?X" "round ?X - 1 \<le> \<lfloor>?x\<rfloor>"
      unfolding round_def by linarith+
    with sp show ?thesis
      by (simp add: uint_display)
  qed
qed

text \<open>
  Two float32 values at which the rounding of the addition or of the multiplication
  carries the result over an integer.
\<close>

lemma display_below_one: "display (16777215 / 16777216) = 255"
proof -
  have s1: "clamp (- 1) 1 (16777215 / 16777216) + 1 = 33554431 / 16777216"
    by (simp add: clamp_def)
  have s2: "float32 (33554431 / 16777216) = 2"
    using float32_binade [of 0 "33554431 / 16777216"] by (simp add: round_half_even_def)
  have s3: "2 * 127.5 = (255 :: real)" by simp
  have s4: "byte 255 = 255" by (simp add: byte_def)
  show ?thesis
    unfolding display_def s1 s2 s3 float32_255 s4 ..
qed

lemma display_carried: "display (- 16579837 / 67108864) = 96"
proof -
  have s1: "clamp (- 1) 1 (- 16579837 / 67108864) + 1 = 50529027 / 67108864"
    by (simp add: clamp_def)
  have s2: "float32 (50529027 / 67108864) = 12632257 / 16777216"
    using float32_binade [of "- 1" "50529027 / 67108864"] by (simp add: round_half_even_def)
  have s3: "12632257 / 16777216 * 127.5 = (3221225535 / 33554432 :: real)" by simp
  have s4: "float32 (3221225535 / 33554432) = 96"
    using float32_binade [of 6 "3221225535 / 33554432"] by (simp add: round_half_even_def)
  have s5: "byte 96 = 96" by (simp add: byte_def)
  show ?thesis
    unfolding display_def s1 s2 s3 s4 s5 ..
qed

lemma permute_map: "permute_1_2_0 (map (map (map g)) t) = map (map (map g)) (permute_1_2_0 t)"
proof -
  have "map transpose (map (map (map g)) x) = map (map (map g)) (map transpose x)" for x
    by (simp add: transpose_map_map)
  then show ?thesis
    by (simp add: permute_1_2_0_def transpose_map_map)
qed

lemma to_uint8_rgb_display: "to_uint8_rgb f = map (map (map display)) (permute_1_2_0 f)"
proof -
  have "display = (\<lambda>v. byte (float32 (float32 (clamp (- 1) 1 v + 1) * 127.5)))"
    by (simp add: fun_eq_iff display_def)
  then show ?thesis
    by (simp add: to_uint8_rgb_def permute_map comp_def)
qed

subsection \<open>Slices and model calls\<close>

lemma slice_from_last: "0 < w \<Longrightarrow> slice_from xs (- w) = drop (length xs - nat w) xs"
  by (auto simp: slice_from_def Let_def max_def nat_diff_distrib'
      intro: arg_cong [where f = "\<lambda>n. drop n xs"])

lemma length_slice_from_last: "0 < w \<Longrightarrow> length (slice_from xs (- w)) = min (nat w) (length xs)"
  by (simp add: slice_from_last)

lemma slice_from_short: "int (length xs) \<le> w \<Longrightarrow> slice_from xs (- w) = xs"
  by (auto simp: slice_from_def Let_def max_def)

lemma set_slice_from: "set (slice_from xs i) \<subseteq> set xs"
  by (simp add: slice_from_def Let_def set_drop_subset)

lemma torch_tensor_int_mod: "0 < n \<Longrightarrow> n \<le> 2 ^ 63 \<Longrightarrow> torch_tensor_int (a mod n) = Inr (a mod n)"
proof -
  assume n: "0 < n" "n \<le> 2 ^ 63"
  then have "0 \<le> a mod n" "a mod n < n" by simp_all
  with n show ?thesis by (simp add: torch_tensor_int_def)
qed

lemma shaped_like_sizes_match: "shaped_like xs ys \<Longrightarrow> sizes_match xs (slice_from ys i)"
proof -
  assume a: "shaped_like xs ys"
  have "frame_shape x = frame_shape y" if "x \<in> set xs" "y \<in> set (slice_from ys i)" for x y
    using a that set_slice_from [of ys i] by (auto simp: shaped_like_def list_all_iff)
  then show ?thesis
    by (auto simp: sizes_match_def split: list.splits)
qed

lemma idx_to_latents_eq:
  "idx_to_latents s = (\<lambda>i. get_latents_from_indices (vt_quantizer (vt s)) i (Some (- 1)))"
  by (simp add: fun_eq_iff idx_to_latents_def)

lemma run_models_decoded:
  "run_models s frames a = (cs, Inr nf) \<Longrightarrow>
   \<exists>l. DetokenizeC l \<in> set cs \<and> detokenize (vt s) l = Inr nf"
  by (auto simp: run_models_def predict_def model_call_def Let_def
      split: sum.splits option.splits if_splits prod.splits)

subsection \<open>The ways a step ends\<close>

lemma step_uninitialized:
  "generated_frames s = None \<Longrightarrow>
   step s a = \<lparr> session_after = s, calls = [],
                returned = Inl (RuntimeError ''Call set_initial_context first'') \<rparr>"
  by (simp add: step_def)

lemma step_raises:
  "generated_frames s = Some frames \<Longrightarrow> run_models s frames a = (cs, Inl e) \<Longrightarrow>
   step s a = \<lparr> session_after = s, calls = cs, returned = Inl e \<rparr>"
  by (simp add: step_def)

lemma step_mismatch:
  "generated_frames s = Some frames \<Longrightarrow> run_models s frames a = (cs, Inr next_frames) \<Longrightarrow>
   \<not> sizes_match frames (slice_from next_frames (- prediction_horizon s)) \<Longrightarrow>
   step s a =
     \<lparr> session_after = s, calls = cs,
       returned = Inl (RuntimeError ''Sizes of tensors must match except in dimension 1'') \<rparr>"
  by (simp add: step_def torch_cat_def)

lemma step_returns:
  "generated_frames s = Some frames \<Longrightarrow> run_models s frames a = (cs, Inr next_frames) \<Longrightarrow>
   sizes_match frames (slice_from next_frames (- prediction_horizon s)) \<Longrightarrow>
   step s a =
     \<lparr> session_after =
         s\<lparr>generated_frames := Some (frames @ slice_from next_frames (- prediction_horizon s))\<rparr>,
       calls = cs,
       returned = (if next_frames = [] then Inl IndexError
                   else Inr (to_uint8_rgb (last next_frames))) \<rparr>"
  by (simp add: step_def index_last_def torch_cat_def)

lemma step_cases:
  obtains (uninitialized) "generated_frames s = None"
  | (raises) frames cs e
      where "generated_frames s = Some frames" "run_models s frames a = (cs, Inl e)"
  | (mismatch) frames cs nf
      where "generated_frames s = Some frames" "run_models s frames a = (cs, Inr nf)"
        "\<not> sizes_match frames (slice_from nf (- prediction_horizon s))"
  | (returns) frames cs nf
      where "generated_frames s = Some frames" "run_models s frames a = (cs, Inr nf)"
        "sizes_match frames (slice_from nf (- prediction_horizon s))"
proof (cases "generated_frames s")
  case None
  then show ?thesis by (rule uninitialized)
next
  case (Some frames)
  obtain cs r where rm: "run_models s frames a = (cs, r)" by force
  show ?thesis
  proof (cases r)
    case (Inl e)
    with Some rm show ?thesis by (auto intro: raises)
  next
    case (Inr nf)
    with Some rm show ?thesis
      by (cases "sizes_match frames (slice_from nf (- prediction_horizon s))")
         (auto intro: mismatch returns)
  qed
qed

lemma step_never_shrinks: "history_length s \<le> history_length (session_after (step s a))"
  by (cases rule: step_cases [where s = s and a = a])
     (simp_all add: step_uninitialized step_raises step_mismatch step_returns history_length_def)

lemma step_grows:
  assumes ok: "returned (step s a) = Inr img"
    and h: "1 \<le> prediction_horizon s"
    and dec: "\<forall>l v. DetokenizeC l \<in> set (calls (step s a)) \<and> detokenize (vt s) l = Inr v
                \<longrightarrow> nat (prediction_horizon s) \<le> length v"
  shows "history_length (session_after (step s a)) = history_length s + nat (prediction_horizon s)"
proof (cases rule: step_cases [where s = s and a = a])
  case uninitialized
  with ok show ?thesis by (simp add: step_uninitialized)
next
  case (raises frames cs e)
  with ok show ?thesis by (simp add: step_raises)
next
  case (mismatch frames cs nf)
  with ok show ?thesis by (simp add: step_mismatch)
next
  case (returns frames cs nf)
  note st = step_returns [OF returns]
  from run_models_decoded [OF returns(2)] obtain l
    where "DetokenizeC l \<in> set cs" "detokenize (vt s) l = Inr nf" by blast
  with dec st have "nat (prediction_horizon s) \<le> length nf" by simp
  with h st returns(1) show ?thesis
    by (simp add: history_length_def length_slice_from_last)
qed

lemma step_error_keeps_session: "returned (step s a) = Inl e \<Longrightarrow> session_after (step s a) = s"
  by (cases rule: step_cases [where s = s and a = a])
     (auto simp: step_uninitialized step_raises step_mismatch step_returns slice_from_def
       split: if_splits)

lemma step_unchanged_fields:
  "session_after (step s a) = s\<lparr>generated_frames := generated_frames (session_after (step s a))\<rparr>"
  by (cases rule: step_cases [where s = s and a = a])
     (simp_all add: step_uninitialized step_raises step_mismatch step_returns)

lemma calls_step:
  "generated_frames s = Some frames \<Longrightarrow> calls (step s a) = fst (run_models s frames a)"
  by (cases rule: step_cases [where s = s and a = a])
     (simp_all add: step_raises step_mismatch step_returns)

subsection \<open>The concrete runs\<close>

lemmas fake_defs = fake_vt_def fake_lam_def fake_dynamics_def one_frame_dynamics_def
  broken_dynamics_def main_session_def set_initial_context_def GenieInferenceSession_def

lemmas eval_defs = step_def run_models_def predict_def model_call_def idx_to_latents_def
  slice_from_def index_last_def torch_cat_def sizes_match_def frame_shape_def
  torch_tensor_int_mod to_uint8_rgb_display permute_1_2_0_def display_low display_high
  display_zero Let_def

lemma step_seeded:
  "step seeded a =
     \<lparr> session_after = seeded\<lparr>generated_frames := Some [[[[1]]], [[[- 1]]], [[[1]]]]\<rparr>,
       calls = [TokenizeC [[[[1]]], [[[- 1]]]], VideoLatentsC [[[[1]]], [[[- 1]]]],
                ActionLatentsC (a mod 3),
                ForwardInferenceC [[[[1]]], [[[- 1]]]] 1 10 (Some (a mod 3)) 0.5 True,
                DetokenizeC [[[[1]]], [[[- 1]]], [[[1]]]]],
       returned = Inr [[[255]]] \<rparr>"
  by (simp add: seeded_def fake_defs eval_defs)

lemma step_short_decoder:
  "step short_decoder a =
     \<lparr> session_after = short_decoder\<lparr>generated_frames := Some [[[[1]]], [[[- 1]]], [[[1]]]]\<rparr>,
       calls = [TokenizeC [[[[1]]], [[[- 1]]]], VideoLatentsC [[[[1]]], [[[- 1]]]],
                ActionLatentsC (a mod 3),
                ForwardInferenceC [[[[1]]], [[[- 1]]]] 2 10 (Some (a mod 3)) 0.5 True,
                DetokenizeC [[[[1]]]]],
       returned = Inr [[[255]]] \<rparr>"
  by (simp add: short_decoder_def fake_defs eval_defs)

subsection \<open>A step, from the answers of the models\<close>

lemma predict_fails:
  "forward_inference (dynamics s) lat (prediction_horizon s) 10
     (\<lambda>i. get_latents_from_indices (vt_quantizer (vt s)) i (Some (- 1))) cond
     (temperature s) (amp s) = Inl e \<Longrightarrow>
   snd (predict s lat cond) = Inl e"
  by (simp add: predict_def model_call_def idx_to_latents_eq)

lemma predict_decodes:
  "forward_inference (dynamics s) lat (prediction_horizon s) 10
     (\<lambda>i. get_latents_from_indices (vt_quantizer (vt s)) i (Some (- 1))) cond
     (temperature s) (amp s) = Inr nl \<Longrightarrow>
   snd (predict s lat cond) = detokenize (vt s) nl"
  by (simp add: predict_def model_call_def idx_to_latents_eq split: sum.splits)

lemma predict_returned:
  "snd (predict s lat cond) = Inr nf \<Longrightarrow>
   \<exists>nl. forward_inference (dynamics s) lat (prediction_horizon s) 10
          (\<lambda>i. get_latents_from_indices (vt_quantizer (vt s)) i (Some (- 1))) cond
          (temperature s) (amp s) = Inr nl
        \<and> detokenize (vt s) nl = Inr nf"
  by (auto simp: predict_def model_call_def idx_to_latents_eq split: sum.splits)

lemma run_models_tokenizer_fails:
  "tokenize (vt s) (slice_from frames (- context_window s)) = Inl e \<Longrightarrow>
   snd (run_models s frames a) = Inl e"
  by (simp add: run_models_def model_call_def)

lemma run_models_latents_fail:
  "tokenize (vt s) (slice_from frames (- context_window s)) = Inr idx \<Longrightarrow>
   get_latents_from_indices (vt_quantizer (vt s)) idx None = Inl e \<Longrightarrow>
   snd (run_models s frames a) = Inl e"
  by (simp add: run_models_def model_call_def)

lemma run_models_lookup_fails:
  "tokenize (vt s) (slice_from frames (- context_window s)) = Inr idx \<Longrightarrow>
   get_latents_from_indices (vt_quantizer (vt s)) idx None = Inr lat \<Longrightarrow>
   lam s = Some m \<Longrightarrow> codebook_size (lam_quantizer m) \<noteq> 0 \<Longrightarrow>
   - (2 ^ 63) \<le> a mod codebook_size (lam_quantizer m) \<Longrightarrow>
   a mod codebook_size (lam_quantizer m) < 2 ^ 63 \<Longrightarrow>
   get_latents_from_indices (lam_quantizer m) (a mod codebook_size (lam_quantizer m)) None = Inl e \<Longrightarrow>
   snd (run_models s frames a) = Inl e"
  by (simp add: run_models_def model_call_def torch_tensor_int_def)

lemma run_models_predicts:
  "tokenize (vt s) (slice_from frames (- context_window s)) = Inr idx \<Longrightarrow>
   get_latents_from_indices (vt_quantizer (vt s)) idx None = Inr lat \<Longrightarrow>
   conditioned s a cond \<Longrightarrow>
   snd (run_models s frames a) = snd (predict s lat cond)"
  by (auto simp: run_models_def model_call_def torch_tensor_int_def conditioned_def Let_def
      split: option.splits prod.splits)

lemma run_models_returned:
  assumes "snd (run_models s frames a) = Inr nf"
  shows "\<exists>idx lat cond.
      tokenize (vt s) (slice_from frames (- context_window s)) = Inr idx
    \<and> get_latents_from_indices (vt_quantizer (vt s)) idx None = Inr lat
    \<and> conditioned s a cond
    \<and> snd (predict s lat cond) = Inr nf"
proof -
  obtain idx where t: "tokenize (vt s) (slice_from frames (- context_window s)) = Inr idx"
    using assms run_models_tokenizer_fails [of s frames _ a]
    by (cases "tokenize (vt s) (slice_from frames (- context_window s))") auto
  obtain lat where l: "get_latents_from_indices (vt_quantizer (vt s)) idx None = Inr lat"
    using assms run_models_latents_fail [OF t, of _ a]
    by (cases "get_latents_from_indices (vt_quantizer (vt s)) idx None") auto
  show ?thesis
  proof (cases "lam s")
    case None
    then have c: "conditioned s a None" by (simp add: conditioned_def)
    from run_models_predicts [OF t l c] assms t l c show ?thesis by auto
  next
    case (Some m)
    let ?n = "codebook_size (lam_quantizer m)"
    from assms t l Some have n: "?n \<noteq> 0"
      by (auto simp: run_models_def model_call_def Let_def)
    from assms t l Some n have r: "- (2 ^ 63) \<le> a mod ?n" "a mod ?n < 2 ^ 63"
      by (auto simp: run_models_def model_call_def Let_def torch_tensor_int_def split: if_splits)
    obtain al where al: "get_latents_from_indices (lam_quantizer m) (a mod ?n) None = Inr al"
      using assms run_models_lookup_fails [OF t l Some n r, of _]
      by (cases "get_latents_from_indices (lam_quantizer m) (a mod ?n) None") auto
    from Some n r al have c: "conditioned s a (Some al)"
      by (simp add: conditioned_def)
    from run_models_predicts [OF t l c] assms t l c show ?thesis by auto
  qed
qed

lemma step_of_error:
  "generated_frames s = Some frames \<Longrightarrow> snd (run_models s frames a) = Inl e \<Longrightarrow>
   returned (step s a) = Inl e \<and> session_after (step s a) = s"
  by (cases "run_models s frames a") (simp add: step_raises)

lemma step_of_frames:
  assumes "generated_frames s = Some frames" "snd (run_models s frames a) = Inr nf"
    "nf \<noteq> []" "shaped_like frames nf"
  shows "returned (step s a) = Inr (to_uint8_rgb (last nf))
    \<and> session_after (step s a)
        = s\<lparr>generated_frames := Some (frames @ slice_from nf (- prediction_horizon s))\<rparr>"
proof -
  obtain cs where "run_models s frames a = (cs, Inr nf)"
    using assms(2) by (cases "run_models s frames a") simp
  from step_returns [OF assms(1) this shaped_like_sizes_match [OF assms(4)]] assms(3)
  show ?thesis by simp
qed

lemma step_returned:
  assumes "returned (step s a) = Inr img"
  shows "\<exists>frames nf. generated_frames s = Some frames \<and> snd (run_models s frames a) = Inr nf
    \<and> img = to_uint8_rgb (last nf) \<and> nf \<noteq> []
    \<and> session_after (step s a)
        = s\<lparr>generated_frames := Some (frames @ slice_from nf (- prediction_horizon s))\<rparr>"
proof (cases rule: step_cases [where s = s and a = a])
  case uninitialized
  with assms show ?thesis by (simp add: step_uninitialized)
next
  case (raises frames cs e)
  with assms show ?thesis by (simp add: step_raises)
next
  case (mismatch frames cs nf)
  with assms show ?thesis by (simp add: step_mismatch)
next
  case (returns frames cs nf)
  with assms show ?thesis
    by (auto simp: step_returns split: if_splits)
qed

text \<open>The whole of a step, from the models' answers.\<close>

lemma step_chain_raises:
  assumes "generated_frames s = Some frames"
    and "tokenize (vt s) (slice_from frames (- context_window s)) = Inr idx"
    and "get_latents_from_indices (vt_quantizer (vt s)) idx None = Inr lat"
    and "conditioned s a cond"
  shows "forward_inference (dynamics s) lat (prediction_horizon s) 10
           (\<lambda>i. get_latents_from_indices (vt_quantizer (vt s)) i (Some (- 1))) cond
           (temperature s) (amp s) = Inl e \<Longrightarrow>
         returned (step s a) = Inl e \<and> session_after (step s a) = s"
    and "forward_inference (dynamics s) lat (prediction_horizon s) 10
           (\<lambda>i. get_latents_from_indices (vt_quantizer (vt s)) i (Some (- 1))) cond
           (temperature s) (amp s) = Inr nl \<Longrightarrow> detokenize (vt s) nl = Inl e \<Longrightarrow>
         returned (step s a) = Inl e \<and> session_after (step s a) = s"
    and "forward_inference (dynamics s) lat (prediction_horizon s) 10
           (\<lambda>i. get_latents_from_indices (vt_quantizer (vt s)) i (Some (- 1))) cond
           (temperature s) (amp s) = Inr nl \<Longrightarrow> detokenize (vt s) nl = Inr nf \<Longrightarrow>
         nf \<noteq> [] \<Longrightarrow> shaped_like frames nf \<Longrightarrow>
         returned (step s a) = Inr (to_uint8_rgb (last nf))
         \<and> session_after (step s a)
             = s\<lparr>generated_frames := Some (frames @ slice_from nf (- prediction_horizon s))\<rparr>"
proof -
  note rm = run_models_predicts [OF assms(2-4)]
  show "forward_inference (dynamics s) lat (prediction_horizon s) 10
           (\<lambda>i. get_latents_from_indices (vt_quantizer (vt s)) i (Some (- 1))) cond
           (temperature s) (amp s) = Inl e \<Longrightarrow>
         returned (step s a) = Inl e \<and> session_after (step s a) = s"
    using rm predict_fails [of s lat cond e] step_of_error [OF assms(1), of a e] by simp
  show "forward_inference (dynamics s) lat (prediction_horizon s) 10
           (\<lambda>i. get_latents_from_indices (vt_quantizer (vt s)) i (Some (- 1))) cond
           (temperature s) (amp s) = Inr nl \<Longrightarrow> detokenize (vt s) nl = Inl e \<Longrightarrow>
         returned (step s a) = Inl e \<and> session_after (step s a) = s"
    using rm predict_decodes [of s lat cond nl] step_of_error [OF assms(1), of a e] by simp
  show "forward_inference (dynamics s) lat (prediction_horizon s) 10
           (\<lambda>i. get_latents_from_indices (vt_quantizer (vt s)) i (Some (- 1))) cond
           (temperature s) (amp s) = Inr nl \<Longrightarrow> detokenize (vt s) nl = Inr nf \<Longrightarrow>
         nf \<noteq> [] \<Longrightarrow> shaped_like frames nf \<Longrightarrow>
         returned (step s a) = Inr (to_uint8_rgb (last nf))
         \<and> session_after (step s a)
             = s\<lparr>generated_frames := Some (frames @ slice_from nf (- prediction_horizon s))\<rparr>"
    using rm predict_decodes [of s lat cond nl] step_of_frames [OF assms(1), of a nf] by simp
qed

lemma step_chain_returned:
  assumes "returned (step s a) = Inr img"
  shows "\<exists>frames idx lat cond nl nf.
      generated_frames s = Some frames
    \<and> tokenize (vt s) (slice_from frames (- context_window s)) = Inr idx
    \<and> get_latents_from_indices (vt_quantizer (vt s)) idx None = Inr lat
    \<and> conditioned s a cond
    \<and> forward_inference (dynamics s) lat (prediction_horizon s) 10
          (\<lambda>i. get_latents_from_indices (vt_quantizer (vt s)) i (Some (- 1))) cond
          (temperature s) (amp s) = Inr nl
    \<and> detokenize (vt s) nl = Inr nf \<and> nf \<noteq> []
    \<and> img = to_uint8_rgb (last nf)
    \<and> session_after (step s a)
        = s\<lparr>generated_frames := Some (frames @ slice_from nf (- prediction_horizon s))\<rparr>"
proof -
  from step_returned [OF assms] obtain frames nf
    where g: "generated_frames s = Some frames" and r: "snd (run_models s frames a) = Inr nf"
      and i: "img = to_uint8_rgb (last nf)" "nf \<noteq> []"
        "session_after (step s a)
          = s\<lparr>generated_frames := Some (frames @ slice_from nf (- prediction_horizon s))\<rparr>"
    by blast
  from run_models_returned [OF r] obtain idx lat cond
    where c: "tokenize (vt s) (slice_from frames (- context_window s)) = Inr idx"
      "get_latents_from_indices (vt_quantizer (vt s)) idx None = Inr lat"
      "conditioned s a cond" and p: "snd (predict s lat cond) = Inr nf"
    by blast
  from predict_returned [OF p] obtain nl
    where f: "forward_inference (dynamics s) lat (prediction_horizon s) 10
          (\<lambda>i. get_latents_from_indices (vt_quantizer (vt s)) i (Some (- 1))) cond
          (temperature s) (amp s) = Inr nl" "detokenize (vt s) nl = Inr nf"
    by blast
  show ?thesis
    by (intro exI conjI) (rule g c f i)+
qed

subsection \<open>The context of a step\<close>

lemma predict_calls:
  "predict s lat c = (cs, r) \<Longrightarrow>
   TokenizeC ctx \<notin> set cs \<and> (ForwardInferenceC l h n cond t am \<in> set cs \<longrightarrow> l = lat)"
  by (auto simp: predict_def model_call_def split: sum.splits prod.splits)

lemma run_models_context:
  assumes "run_models s frames a = (cs, r)"
  shows "cs \<noteq> [] \<and> hd cs = TokenizeC (slice_from frames (- context_window s))
    \<and> (TokenizeC ctx \<in> set cs \<longrightarrow> ctx = slice_from frames (- context_window s))
    \<and> (ForwardInferenceC l h n cond t am \<in> set cs \<longrightarrow>
         (\<exists>idx. tokenize (vt s) (slice_from frames (- context_window s)) = Inr idx
            \<and> get_latents_from_indices (vt_quantizer (vt s)) idx None = Inr l))"
  using assms unfolding run_models_def Let_def
  by (auto simp: model_call_def split: sum.splits prod.splits option.splits if_splits
      dest: predict_calls)

lemma step_context:
  assumes "generated_frames s = Some frames"
  shows "calls (step s a) \<noteq> []
    \<and> hd (calls (step s a)) = TokenizeC (slice_from frames (- context_window s))
    \<and> (TokenizeC ctx \<in> set (calls (step s a)) \<longrightarrow> ctx = slice_from frames (- context_window s))
    \<and> (ForwardInferenceC l h n cond t am \<in> set (calls (step s a)) \<longrightarrow>
         (\<exists>idx. tokenize (vt s) (slice_from frames (- context_window s)) = Inr idx
            \<and> get_latents_from_indices (vt_quantizer (vt s)) idx None = Inr l))"
proof -
  obtain cs r where rm: "run_models s frames a = (cs, r)" by force
  with assms have "calls (step s a) = cs" by (simp add: calls_step)
  with run_models_context [OF rm, of ctx l h n cond t am] show ?thesis by simp
qed

subsection \<open>The test sessions\<close>

lemmas more_fake_defs = deaf_vt_def mute_vt_def strict_lam_def strict_dynamics_def

text \<open>The strict session: what its models answer on the window of the two seed frames.\<close>

lemma strict_facts:
  "lam strict = Some strict_lam"
  "codebook_size (lam_quantizer strict_lam) = 3"
  "generated_frames strict = Some [[[[1]]], [[[- 1]]]]"
  "context_window strict = 2" "prediction_horizon strict = 1"
  "temperature strict = 0.5" "amp strict" "device strict = ''cpu''"
  "tokenize (vt strict) v = Inr v"
  "get_latents_from_indices (vt_quantizer (vt strict)) v d = Inr v"
  "detokenize (vt strict) v = Inr v"
  "get_latents_from_indices (lam_quantizer strict_lam) 1 None = Inr 7"
  "get_latents_from_indices (lam_quantizer strict_lam) 2 None = Inl (ModelError ''index'')"
  "forward_inference (dynamics strict) [[[[1]]], [[[- 1]]]] 1 10
     (\<lambda>i. get_latents_from_indices (vt_quantizer (vt strict)) i (Some (- 1))) (Some 7) 0.5 True
     = Inr [[[[1]]], [[[- 1]]], [[[1]]]]"
  by (simp_all add: strict_def more_fake_defs fake_defs)

lemma conditioned_strict: "conditioned strict 1 (Some 7)" "conditioned strict 4 (Some 7)"
  by (simp_all add: conditioned_def strict_facts)

lemma white_pixel: "to_uint8_rgb [[[1]]] = [[[255]]]" "to_uint8_rgb [[[- 1]]] = [[[0]]]"
  by (simp_all add: to_uint8_rgb_display permute_1_2_0_def display_high display_low)

lemma shaped_like_pixels:
  "shaped_like [[[[1]]], [[[- 1]]]] [[[[1]]], [[[- 1]]], [[[1]]]]"
  by (simp add: shaped_like_def frame_shape_def)

lemma step_short_seed:
  "step short_seed a =
     \<lparr> session_after = short_seed\<lparr>generated_frames := Some [[[[0]]], [[[0]]]]\<rparr>,
       calls = [TokenizeC [[[[0]]]], VideoLatentsC [[[[0]]]], ActionLatentsC (a mod 3),
                ForwardInferenceC [[[[0]]]] 1 10 (Some (a mod 3)) 0.5 True,
                DetokenizeC [[[[0]]], [[[0]]]]],
       returned = Inr [[[127]]] \<rparr>"
  by (simp add: short_seed_def fake_defs eval_defs)

text \<open>The test transport on four messages.\<close>

lemma decode_fake:
  \<open>decode_action fake_io ''{"action": 1}'' = Inr 1\<close>
  \<open>decode_action fake_io ''{"action": 4}'' = Inr 4\<close>
  \<open>decode_action fake_io ''{"action": "left"}'' = Inl ValueError\<close>
  \<open>decode_action fake_io ''{"action": '' = Inl JSONDecodeError\<close>
  by (simp_all add: fake_io_def decode_action_def dict_get_def py_int_def)

subsection \<open>C1: the length of the history\<close>

text \<open>
  C1, as the code has it. No step shortens the history, whether it returns or raises. A
  step that returns a frame, on a session whose prediction horizon H is at least 1 and
  whose decoder returned at least H frames on the call of line 93, lengthens the history
  by exactly H. \<^verbatim>\<open>set_initial_context\<close> replaces the history by the frames it is given,
  whatever the history was.
\<close>

theorem history_growth:
  "history_length s \<le> history_length (session_after (step s a))
   \<and> (returned (step s a) = Inr img \<and> 1 \<le> prediction_horizon s
        \<and> (\<forall>l v. DetokenizeC l \<in> set (calls (step s a)) \<and> detokenize (vt s) l = Inr v
               \<longrightarrow> nat (prediction_horizon s) \<le> length v)
      \<longrightarrow> history_length (session_after (step s a))
            = history_length s + nat (prediction_horizon s))
   \<and> history_length (set_initial_context s frames) = length frames"
  using step_never_shrinks [of s a] step_grows [of s a img]
  by (simp add: set_initial_context_def history_length_def)

text \<open>On the seeded session: two frames, horizon 1, three frames after the step.\<close>

theorem history_growth_witness:
  "returned (step seeded 2) = Inr [[[255]]] \<and> 1 \<le> prediction_horizon seeded
   \<and> DetokenizeC [[[[1]]], [[[- 1]]], [[[1]]]] \<in> set (calls (step seeded 2))
   \<and> detokenize (vt seeded) [[[[1]]], [[[- 1]]], [[[1]]]] = Inr [[[[1]]], [[[- 1]]], [[[1]]]]
   \<and> history_length seeded = 2
   \<and> history_length (session_after (step seeded 2)) = 3
   \<and> history_length (set_initial_context seeded [[[[0]]]]) = 1"
proof -
  have c: "DetokenizeC [[[[1]]], [[[- 1]]], [[[1]]]] \<in> set (calls (step seeded 2))"
    by (simp add: step_seeded)
  have d: "detokenize (vt seeded) [[[[1]]], [[[- 1]]], [[[1]]]] = Inr [[[[1]]], [[[- 1]]], [[[1]]]]"
    by (simp add: seeded_def fake_defs)
  have ok: "returned (step seeded 2) = Inr [[[255]]]"
    by (simp add: step_seeded)
  have h: "prediction_horizon seeded = 1" and len: "history_length seeded = 2"
    by (simp_all add: seeded_def fake_defs history_length_def)
  have dec: "\<forall>l v. DetokenizeC l \<in> set (calls (step seeded 2)) \<and> detokenize (vt seeded) l = Inr v
               \<longrightarrow> nat (prediction_horizon seeded) \<le> length v"
    by (auto simp: step_seeded) (auto simp: seeded_def fake_defs)
  from ok h len dec c d history_growth [of seeded 2 "[[[255]]]" "[[[[0]]]]"]
  show ?thesis by simp
qed

text \<open>
  After one step the history of the seeded session has three frames, and
  \<^verbatim>\<open>set_initial_context\<close> with one frame leaves it with one.
\<close>

theorem history_growth_counterexample:
  "history_length (session_after (step seeded 2)) = 3
   \<and> history_length (set_initial_context (session_after (step seeded 2)) [[[[0]]]]) = 1"
  by (simp add: step_seeded) (simp add: seeded_def fake_defs history_length_def)

text \<open>
  Why the decoder's output must hold H frames: with horizon 2 and a decoder that returns
  one frame, \<^verbatim>\<open>next_frames[:, -2:]\<close> is that one frame, the step returns, and the history
  grows by 1.
\<close>

lemma short_decoder_grows_by_one:
  "prediction_horizon short_decoder = 2
   \<and> returned (step short_decoder 2) = Inr [[[255]]]
   \<and> history_length (session_after (step short_decoder 2)) = history_length short_decoder + 1"
  by (simp add: step_short_decoder) (simp add: short_decoder_def fake_defs history_length_def)

subsection \<open>C2: a model call that raises\<close>

text \<open>
  C2. Whenever \<open>step\<close> raises, the session it leaves is the session it was given: the
  history is as before, nothing was appended. And every exception of a model propagates:
  if \<^verbatim>\<open>tokenize\<close> raises on the context window, or \<^verbatim>\<open>get_latents_from_indices\<close> on
  its indices, or the action quantizer on the id modulo the codebook size, or
  \<^verbatim>\<open>forward_inference\<close> on the context latents (with the horizon, ten steps, the
  callback, the conditioning and the temperature of the session), or \<^verbatim>\<open>detokenize\<close> on
  the predicted latents, then \<open>step\<close> raises that exception in place of returning a
  frame, and leaves the session as it was.
\<close>

theorem failure_is_atomic:
  "(returned (step s a) = Inl e \<longrightarrow> session_after (step s a) = s)
   \<and> (generated_frames s = Some frames \<longrightarrow>
        (tokenize (vt s) (slice_from frames (- context_window s)) = Inl e \<longrightarrow>
           returned (step s a) = Inl e \<and> session_after (step s a) = s)
      \<and> (tokenize (vt s) (slice_from frames (- context_window s)) = Inr idx \<longrightarrow>
           (get_latents_from_indices (vt_quantizer (vt s)) idx None = Inl e \<longrightarrow>
              returned (step s a) = Inl e \<and> session_after (step s a) = s)
         \<and> (get_latents_from_indices (vt_quantizer (vt s)) idx None = Inr lat \<longrightarrow>
              (lam s = Some m \<and> codebook_size (lam_quantizer m) \<noteq> 0
                 \<and> - (2 ^ 63) \<le> a mod codebook_size (lam_quantizer m)
                 \<and> a mod codebook_size (lam_quantizer m) < 2 ^ 63
                 \<and> get_latents_from_indices (lam_quantizer m)
                       (a mod codebook_size (lam_quantizer m)) None = Inl e \<longrightarrow>
                 returned (step s a) = Inl e \<and> session_after (step s a) = s)
            \<and> (conditioned s a cond \<longrightarrow>
                 (forward_inference (dynamics s) lat (prediction_horizon s) 10
                      (\<lambda>i. get_latents_from_indices (vt_quantizer (vt s)) i (Some (- 1))) cond
                      (temperature s) (amp s) = Inl e \<longrightarrow>
                    returned (step s a) = Inl e \<and> session_after (step s a) = s)
               \<and> (forward_inference (dynamics s) lat (prediction_horizon s) 10
                      (\<lambda>i. get_latents_from_indices (vt_quantizer (vt s)) i (Some (- 1))) cond
                      (temperature s) (amp s) = Inr nl
                    \<and> detokenize (vt s) nl = Inl e \<longrightarrow>
                    returned (step s a) = Inl e \<and> session_after (step s a) = s)))))"
proof -
  have "returned (step s a) = Inl e \<and> session_after (step s a) = s"
    if "generated_frames s = Some frames"
      "tokenize (vt s) (slice_from frames (- context_window s)) = Inl e"
    using that run_models_tokenizer_fails [of s frames e a] step_of_error [of s frames a e]
    by simp
  moreover have "returned (step s a) = Inl e \<and> session_after (step s a) = s"
    if "generated_frames s = Some frames"
      "tokenize (vt s) (slice_from frames (- context_window s)) = Inr idx"
      "get_latents_from_indices (vt_quantizer (vt s)) idx None = Inl e"
    using that run_models_latents_fail [of s frames idx e a] step_of_error [of s frames a e]
    by simp
  moreover have "returned (step s a) = Inl e \<and> session_after (step s a) = s"
    if "generated_frames s = Some frames"
      "tokenize (vt s) (slice_from frames (- context_window s)) = Inr idx"
      "get_latents_from_indices (vt_quantizer (vt s)) idx None = Inr lat"
      "lam s = Some m" "codebook_size (lam_quantizer m) \<noteq> 0"
      "- (2 ^ 63) \<le> a mod codebook_size (lam_quantizer m)"
      "a mod codebook_size (lam_quantizer m) < 2 ^ 63"
      "get_latents_from_indices (lam_quantizer m)
          (a mod codebook_size (lam_quantizer m)) None = Inl e"
    using run_models_lookup_fails [OF that(2-8)] step_of_error [OF that(1), of a e]
    by simp
  moreover note
    step_chain_raises(1) [where s = s and frames = frames and idx = idx and lat = lat
      and a = a and cond = cond and e = e]
    step_chain_raises(2) [where s = s and frames = frames and idx = idx and lat = lat
      and a = a and cond = cond and nl = nl and e = e]
    step_error_keeps_session [of s a e]
  ultimately show ?thesis by blast
qed

text \<open>A tokenizer, a dynamics model and a decoder that raise.\<close>

lemma step_broken:
  "step broken a =
     \<lparr> session_after = broken,
       calls = [TokenizeC [[[[1]]], [[[- 1]]]], VideoLatentsC [[[[1]]], [[[- 1]]]],
                ActionLatentsC (a mod 3),
                ForwardInferenceC [[[[1]]], [[[- 1]]]] 1 10 (Some (a mod 3)) 0.5 True],
       returned = Inl (ModelError ''device'') \<rparr>"
  by (simp add: broken_def fake_defs eval_defs)

lemma conditioned_fake:
  "lam s = Some fake_lam \<Longrightarrow> conditioned s a (Some (a mod 3))"
proof -
  assume l: "lam s = Some fake_lam"
  have "0 \<le> a mod 3" "a mod 3 < 3" by simp_all
  then have "- (2 ^ 63) \<le> a mod 3" "a mod 3 < 2 ^ 63" by simp_all
  with l show ?thesis
    by (simp add: conditioned_def fake_lam_def)
qed

theorem failure_is_atomic_witness:
  "generated_frames deaf = Some [[[[1]]], [[[- 1]]]]
   \<and> tokenize (vt deaf) (slice_from [[[[1]]], [[[- 1]]]] (- context_window deaf))
       = Inl (ModelError ''tokenizer'')
   \<and> returned (step deaf 2) = Inl (ModelError ''tokenizer'')
   \<and> session_after (step deaf 2) = deaf
   \<and> generated_frames broken = Some [[[[1]]], [[[- 1]]]]
   \<and> tokenize (vt broken) (slice_from [[[[1]]], [[[- 1]]]] (- context_window broken))
       = Inr [[[[1]]], [[[- 1]]]]
   \<and> get_latents_from_indices (vt_quantizer (vt broken)) [[[[1]]], [[[- 1]]]] None
       = Inr [[[[1]]], [[[- 1]]]]
   \<and> conditioned broken 2 (Some 2)
   \<and> forward_inference (dynamics broken) [[[[1]]], [[[- 1]]]] (prediction_horizon broken) 10
        (\<lambda>i. get_latents_from_indices (vt_quantizer (vt broken)) i (Some (- 1))) (Some 2)
        (temperature broken) (amp broken) = Inl (ModelError ''device'')
   \<and> returned (step broken 2) = Inl (ModelError ''device'')
   \<and> session_after (step broken 2) = broken
   \<and> generated_frames mute = Some [[[[1]]], [[[- 1]]]]
   \<and> detokenize (vt mute) [[[[1]]], [[[- 1]]], [[[1]]]] = Inl (ModelError ''decoder'')
   \<and> returned (step mute 2) = Inl (ModelError ''decoder'')
   \<and> session_after (step mute 2) = mute"
proof -
  have d: "generated_frames deaf = Some [[[[1]]], [[[- 1]]]]"
    "tokenize (vt deaf) (slice_from [[[[1]]], [[[- 1]]]] (- context_window deaf))
       = Inl (ModelError ''tokenizer'')"
    by (simp_all add: deaf_def more_fake_defs fake_defs)
  have b: "generated_frames broken = Some [[[[1]]], [[[- 1]]]]"
    "tokenize (vt broken) (slice_from [[[[1]]], [[[- 1]]]] (- context_window broken))
       = Inr [[[[1]]], [[[- 1]]]]"
    "get_latents_from_indices (vt_quantizer (vt broken)) [[[[1]]], [[[- 1]]]] None
       = Inr [[[[1]]], [[[- 1]]]]"
    "forward_inference (dynamics broken) [[[[1]]], [[[- 1]]]] (prediction_horizon broken) 10
        (\<lambda>i. get_latents_from_indices (vt_quantizer (vt broken)) i (Some (- 1))) (Some 2)
        (temperature broken) (amp broken) = Inl (ModelError ''device'')"
    by (simp_all add: broken_def fake_defs slice_from_def)
  have bc: "conditioned broken 2 (Some 2)"
    using conditioned_fake [of broken 2] by (simp add: broken_def fake_defs)
  have m: "generated_frames mute = Some [[[[1]]], [[[- 1]]]]"
    "tokenize (vt mute) (slice_from [[[[1]]], [[[- 1]]]] (- context_window mute))
       = Inr [[[[1]]], [[[- 1]]]]"
    "get_latents_from_indices (vt_quantizer (vt mute)) [[[[1]]], [[[- 1]]]] None
       = Inr [[[[1]]], [[[- 1]]]]"
    "forward_inference (dynamics mute) [[[[1]]], [[[- 1]]]] (prediction_horizon mute) 10
        (\<lambda>i. get_latents_from_indices (vt_quantizer (vt mute)) i (Some (- 1))) (Some 2)
        (temperature mute) (amp mute) = Inr [[[[1]]], [[[- 1]]], [[[1]]]]"
    "detokenize (vt mute) [[[[1]]], [[[- 1]]], [[[1]]]] = Inl (ModelError ''decoder'')"
    by (simp_all add: mute_def more_fake_defs fake_defs slice_from_def)
  have mc: "conditioned mute 2 (Some 2)"
    using conditioned_fake [of mute 2] by (simp add: mute_def fake_defs)
  from failure_is_atomic [of deaf 2 "ModelError ''tokenizer''" "[[[[1]]], [[[- 1]]]]"] d
  have 1: "returned (step deaf 2) = Inl (ModelError ''tokenizer'')"
    "session_after (step deaf 2) = deaf"
    by blast+
  from failure_is_atomic [of broken 2 "ModelError ''device''" "[[[[1]]], [[[- 1]]]]"
      "[[[[1]]], [[[- 1]]]]" "[[[[1]]], [[[- 1]]]]" _ "Some 2"] b bc
  have 2: "returned (step broken 2) = Inl (ModelError ''device'')"
    "session_after (step broken 2) = broken"
    by blast+
  from failure_is_atomic [of mute 2 "ModelError ''decoder''" "[[[[1]]], [[[- 1]]]]"
      "[[[[1]]], [[[- 1]]]]" "[[[[1]]], [[[- 1]]]]" _ "Some 2" "[[[[1]]], [[[- 1]]], [[[1]]]]"] m mc
  have 3: "returned (step mute 2) = Inl (ModelError ''decoder'')"
    "session_after (step mute 2) = mute"
    by blast+
  from d b bc m 1 2 3 show ?thesis by blast
qed

subsection \<open>C3: the action id\<close>

lemma action_lookups_predict: "action_lookups (fst (predict s l cond)) = []"
  by (simp add: predict_def model_call_def split: sum.splits prod.splits)

lemma run_models_wraps:
  "lam s = Some m \<Longrightarrow>
   run_models s frames (a + k * codebook_size (lam_quantizer m)) = run_models s frames a"
  by (simp add: run_models_def Let_def cong: if_cong)

lemma step_wraps:
  "lam s = Some m \<Longrightarrow> step s (a + k * codebook_size (lam_quantizer m)) = step s a"
  by (cases "generated_frames s") (simp_all add: step_def run_models_wraps)

lemma run_models_lookups:
  "lam s = Some m \<Longrightarrow>
   set (action_lookups (fst (run_models s frames a))) \<subseteq> {a mod codebook_size (lam_quantizer m)}"
  unfolding run_models_def Let_def
  by (auto simp: model_call_def action_lookups_predict torch_tensor_int_def
      split: sum.splits prod.splits if_splits
      dest: arg_cong [where f = "\<lambda>p. action_lookups (fst p)"])

lemma run_models_lookup:
  "lam s = Some m \<Longrightarrow> codebook_size (lam_quantizer m) \<noteq> 0 \<Longrightarrow>
   - (2 ^ 63) \<le> a mod codebook_size (lam_quantizer m) \<Longrightarrow>
   a mod codebook_size (lam_quantizer m) < 2 ^ 63 \<Longrightarrow>
   tokenize (vt s) (slice_from frames (- context_window s)) = Inr idx \<Longrightarrow>
   get_latents_from_indices (vt_quantizer (vt s)) idx None = Inr lat \<Longrightarrow>
   action_lookups (fst (run_models s frames a)) = [a mod codebook_size (lam_quantizer m)]"
  unfolding run_models_def Let_def
  by (auto simp: model_call_def torch_tensor_int_def action_lookups_predict
      split: sum.splits prod.splits
      dest: arg_cong [where f = "\<lambda>p. action_lookups (fst p)"])

text \<open>
  C3. On a session with a latent action model of codebook size \<open>n\<close>, the steps on the
  action ids \<open>a\<close> and \<open>a + k * n\<close> are the same computation, for every integer \<open>k\<close>. The
  action quantizer is never called on an id other than \<open>a mod n\<close>, and for a positive
  \<open>n\<close> this id is in the range of the codebook, whatever \<open>a\<close> is. Once the context is
  encoded (and \<open>n\<close> is not 0, and \<open>a mod n\<close> fits the int64 tensor that carries it) the
  quantizer is called exactly once, and what \<^verbatim>\<open>get_latents_from_indices\<close> answers at
  \<open>a mod n\<close> is what both steps go by: if it raises there, both steps raise that
  exception; if it returns a latent, that latent is the conditioning given to
  \<^verbatim>\<open>forward_inference\<close>, whose result decides what both steps return.
\<close>

theorem action_id_wraps:
  assumes "lam s = Some m" and "codebook_size (lam_quantizer m) = n"
  shows "step s (a + k * n) = step s a
    \<and> (0 < n \<longrightarrow> 0 \<le> a mod n \<and> a mod n < n)
    \<and> set (action_lookups (calls (step s a))) \<subseteq> {a mod n}
    \<and> (generated_frames s = Some frames
         \<and> tokenize (vt s) (slice_from frames (- context_window s)) = Inr idx
         \<and> get_latents_from_indices (vt_quantizer (vt s)) idx None = Inr lat
         \<and> n \<noteq> 0 \<and> - (2 ^ 63) \<le> a mod n \<and> a mod n < 2 ^ 63 \<longrightarrow>
        action_lookups (calls (step s a)) = [a mod n]
        \<and> (get_latents_from_indices (lam_quantizer m) (a mod n) None = Inl e \<longrightarrow>
              returned (step s a) = Inl e \<and> returned (step s (a + k * n)) = Inl e)
        \<and> (get_latents_from_indices (lam_quantizer m) (a mod n) None = Inr al \<longrightarrow>
             (forward_inference (dynamics s) lat (prediction_horizon s) 10
                  (\<lambda>i. get_latents_from_indices (vt_quantizer (vt s)) i (Some (- 1))) (Some al)
                  (temperature s) (amp s) = Inl e \<longrightarrow>
                returned (step s a) = Inl e \<and> returned (step s (a + k * n)) = Inl e)
           \<and> (forward_inference (dynamics s) lat (prediction_horizon s) 10
                  (\<lambda>i. get_latents_from_indices (vt_quantizer (vt s)) i (Some (- 1))) (Some al)
                  (temperature s) (amp s) = Inr nl
                \<and> detokenize (vt s) nl = Inr nf \<and> nf \<noteq> [] \<and> shaped_like frames nf \<longrightarrow>
                returned (step s a) = Inr (to_uint8_rgb (last nf))
                \<and> returned (step s (a + k * n)) = Inr (to_uint8_rgb (last nf)))))"
proof -
  have same: "step s (a + k * n) = step s a"
    using assms step_wraps [of s m a k] by simp
  have sub: "set (action_lookups (calls (step s a))) \<subseteq> {a mod n}"
  proof (cases "generated_frames s")
    case None
    then show ?thesis by (simp add: step_uninitialized)
  next
    case (Some fs)
    with assms run_models_lookups [of s m fs a] show ?thesis
      by (simp add: calls_step)
  qed
  have rest: "action_lookups (calls (step s a)) = [a mod n]
        \<and> (get_latents_from_indices (lam_quantizer m) (a mod n) None = Inl e \<longrightarrow>
              returned (step s a) = Inl e)
        \<and> (get_latents_from_indices (lam_quantizer m) (a mod n) None = Inr al \<longrightarrow>
             (forward_inference (dynamics s) lat (prediction_horizon s) 10
                  (\<lambda>i. get_latents_from_indices (vt_quantizer (vt s)) i (Some (- 1))) (Some al)
                  (temperature s) (amp s) = Inl e \<longrightarrow>
                returned (step s a) = Inl e)
           \<and> (forward_inference (dynamics s) lat (prediction_horizon s) 10
                  (\<lambda>i. get_latents_from_indices (vt_quantizer (vt s)) i (Some (- 1))) (Some al)
                  (temperature s) (amp s) = Inr nl
                \<and> detokenize (vt s) nl = Inr nf \<and> nf \<noteq> [] \<and> shaped_like frames nf \<longrightarrow>
                returned (step s a) = Inr (to_uint8_rgb (last nf))))"
    if g: "generated_frames s = Some frames"
      and t: "tokenize (vt s) (slice_from frames (- context_window s)) = Inr idx"
      and l: "get_latents_from_indices (vt_quantizer (vt s)) idx None = Inr lat"
      and n: "n \<noteq> 0" "- (2 ^ 63) \<le> a mod n" "a mod n < 2 ^ 63"
  proof -
    from n assms have n': "codebook_size (lam_quantizer m) \<noteq> 0"
      "- (2 ^ 63) \<le> a mod codebook_size (lam_quantizer m)"
      "a mod codebook_size (lam_quantizer m) < 2 ^ 63"
      by simp_all
    have 1: "action_lookups (calls (step s a)) = [a mod n]"
      using run_models_lookup [OF assms(1) n' t l] assms(2) g by (simp add: calls_step)
    have 2: "returned (step s a) = Inl e"
      if "get_latents_from_indices (lam_quantizer m) (a mod n) None = Inl e"
      using run_models_lookup_fails [OF t l assms(1) n', of e] that assms(2)
        step_of_error [OF g, of a e] by simp
    have c: "conditioned s a (Some al)"
      if "get_latents_from_indices (lam_quantizer m) (a mod n) None = Inr al"
      using that assms n' by (simp add: conditioned_def)
    note ch = step_chain_raises(1) [OF g t l c, where e = e]
      step_chain_raises(3) [OF g t l c, where nl = nl and nf = nf]
    from 1 2 ch show ?thesis by blast
  qed
  from same sub rest show ?thesis by auto
qed

text \<open>
  The strict action model knows entry 1 only, and the strict dynamics model takes its
  latent only: with three actions, the ids 7 and 1 both look up entry 1 and return a
  frame, and the id 5 looks up entry 2 and raises.
\<close>

theorem action_id_wraps_witness:
  "lam strict = Some strict_lam \<and> codebook_size (lam_quantizer strict_lam) = 3
   \<and> generated_frames strict = Some [[[[1]]], [[[- 1]]]]
   \<and> tokenize (vt strict) (slice_from [[[[1]]], [[[- 1]]]] (- context_window strict))
       = Inr [[[[1]]], [[[- 1]]]]
   \<and> get_latents_from_indices (vt_quantizer (vt strict)) [[[[1]]], [[[- 1]]]] None
       = Inr [[[[1]]], [[[- 1]]]]
   \<and> get_latents_from_indices (lam_quantizer strict_lam) (7 mod 3) None = Inr 7
   \<and> forward_inference (dynamics strict) [[[[1]]], [[[- 1]]]] (prediction_horizon strict) 10
        (\<lambda>i. get_latents_from_indices (vt_quantizer (vt strict)) i (Some (- 1))) (Some 7)
        (temperature strict) (amp strict) = Inr [[[[1]]], [[[- 1]]], [[[1]]]]
   \<and> detokenize (vt strict) [[[[1]]], [[[- 1]]], [[[1]]]] = Inr [[[[1]]], [[[- 1]]], [[[1]]]]
   \<and> step strict (7 + (- 2) * 3) = step strict 7
   \<and> action_lookups (calls (step strict 7)) = [1]
   \<and> returned (step strict 7) = Inr [[[255]]]
   \<and> returned (step strict (7 + (- 2) * 3)) = Inr [[[255]]]
   \<and> get_latents_from_indices (lam_quantizer strict_lam) (5 mod 3) None
       = Inl (ModelError ''index'')
   \<and> returned (step strict 5) = Inl (ModelError ''index'')"
proof -
  note f = strict_facts
  have t: "tokenize (vt strict) (slice_from [[[[1]]], [[[- 1]]]] (- context_window strict))
       = Inr [[[[1]]], [[[- 1]]]]"
    by (simp add: f slice_from_def)
  have fw: "forward_inference (dynamics strict) [[[[1]]], [[[- 1]]]] (prediction_horizon strict) 10
        (\<lambda>i. get_latents_from_indices (vt_quantizer (vt strict)) i (Some (- 1))) (Some 7)
        (temperature strict) (amp strict) = Inr [[[[1]]], [[[- 1]]], [[[1]]]]"
    using f(14) by (simp add: f(5-7))
  have m7: "(7::int) mod 3 = 1" and m5: "(5::int) mod 3 = 2" by simp_all
  have l7: "get_latents_from_indices (lam_quantizer strict_lam) (7 mod 3) None = Inr 7"
    and l5: "get_latents_from_indices (lam_quantizer strict_lam) (5 mod 3) None
              = Inl (ModelError ''index'')"
    by (simp_all only: m7 m5 f)
  note th7 = action_id_wraps [OF f(1) f(2), of 7 "- 2" "[[[[1]]], [[[- 1]]]]"
      "[[[[1]]], [[[- 1]]]]" "[[[[1]]], [[[- 1]]]]" _ 7 "[[[[1]]], [[[- 1]]], [[[1]]]]"
      "[[[[1]]], [[[- 1]]], [[[1]]]]"]
  note th5 = action_id_wraps [OF f(1) f(2), of 5 0 "[[[[1]]], [[[- 1]]]]"
      "[[[[1]]], [[[- 1]]]]" "[[[[1]]], [[[- 1]]]]" "ModelError ''index''"]
  have r: "- (2 ^ 63) \<le> (7::int) mod 3" "(7::int) mod 3 < 2 ^ 63"
    "- (2 ^ 63) \<le> (5::int) mod 3" "(5::int) mod 3 < 2 ^ 63" "(3::int) \<noteq> 0"
    by simp_all
  from th7 f(3) t f(10) r l7 fw f(11) shaped_like_pixels
  have a: "step strict (7 + (- 2) * 3) = step strict 7"
    "action_lookups (calls (step strict 7)) = [7 mod 3]"
    "returned (step strict 7) = Inr (to_uint8_rgb (last [[[[1]]], [[[- 1]]], [[[1]]]]))"
    "returned (step strict (7 + (- 2) * 3))
       = Inr (to_uint8_rgb (last [[[[1]]], [[[- 1]]], [[[1]]]]))"
    by blast+
  from th5 f(3) t f(10) r l5
  have b: "returned (step strict 5) = Inl (ModelError ''index'')"
    by blast
  from a b f t l7 l5 fw show ?thesis
    by (simp add: white_pixel)
qed

subsection \<open>C4: the frame returned\<close>

lemma step_returned_display:
  assumes "returned (step s a) = Inr img"
  shows "\<exists>l nf. DetokenizeC l \<in> set (calls (step s a)) \<and> detokenize (vt s) l = Inr nf \<and> nf \<noteq> []
           \<and> img = map (map (map display)) (permute_1_2_0 (last nf))"
proof (cases rule: step_cases [where s = s and a = a])
  case uninitialized
  with assms show ?thesis by (simp add: step_uninitialized)
next
  case (raises frames cs e)
  with assms show ?thesis by (simp add: step_raises)
next
  case (mismatch frames cs nf)
  with assms show ?thesis by (simp add: step_mismatch)
next
  case (returns frames cs nf)
  from run_models_decoded [OF returns(2)] obtain l
    where "DetokenizeC l \<in> set cs" "detokenize (vt s) l = Inr nf" by blast
  with assms returns show ?thesis
    by (auto simp: step_returns to_uint8_rgb_display split: if_splits)
qed

lemma step_chain_display:
  assumes "returned (step s a) = Inr img"
  shows "\<exists>frames idx lat cond nl nf. generated_frames s = Some frames
    \<and> tokenize (vt s) (slice_from frames (- context_window s)) = Inr idx
    \<and> get_latents_from_indices (vt_quantizer (vt s)) idx None = Inr lat
    \<and> conditioned s a cond
    \<and> forward_inference (dynamics s) lat (prediction_horizon s) 10
          (\<lambda>i. get_latents_from_indices (vt_quantizer (vt s)) i (Some (- 1))) cond
          (temperature s) (amp s) = Inr nl
    \<and> detokenize (vt s) nl = Inr nf \<and> nf \<noteq> []
    \<and> img = map (map (map display)) (permute_1_2_0 (last nf))"
proof -
  from step_chain_returned [OF assms] obtain frames idx lat cond nl nf
    where c: "generated_frames s = Some frames"
      "tokenize (vt s) (slice_from frames (- context_window s)) = Inr idx"
      "get_latents_from_indices (vt_quantizer (vt s)) idx None = Inr lat"
      "conditioned s a cond"
      "forward_inference (dynamics s) lat (prediction_horizon s) 10
          (\<lambda>i. get_latents_from_indices (vt_quantizer (vt s)) i (Some (- 1))) cond
          (temperature s) (amp s) = Inr nl"
      "detokenize (vt s) nl = Inr nf" "nf \<noteq> []" and i: "img = to_uint8_rgb (last nf)"
    by blast
  from i have i': "img = map (map (map display)) (permute_1_2_0 (last nf))"
    by (simp add: to_uint8_rgb_display)
  show ?thesis
    by (intro exI conjI) (rule c i')+
qed

text \<open>
  C4, as the code has it. The frame a step returns is the last frame of the decoder's
  output, permuted to H x W x C, with every value \<open>v\<close> converted by
  \<open>display v = byte (float32 (float32 (clamp (-1) 1 v + 1) * 127.5))\<close>: the value is
  clamped to the signed range first, the sum and the product are rounded to float32, and
  the cast to uint8 drops the fraction. So \<open>display v\<close> is the integer part of the float32
  product, which is within a half of \<open>(clamp (-1) 1 v + 1) * 127.5\<close>, and lies between 0
  and 255; \<open>display (-1) = 0\<close> and \<open>display 1 = 255\<close>; a value below the range gives 0 and
  one above gives 255, with no wrap-around; and \<open>display v\<close> is the specification's
  rounded value or one less.
\<close>

theorem display_conversion:
  "(returned (step s a) = Inr img \<longrightarrow>
      (\<exists>l nf. DetokenizeC l \<in> set (calls (step s a)) \<and> detokenize (vt s) l = Inr nf \<and> nf \<noteq> []
         \<and> img = map (map (map display)) (permute_1_2_0 (last nf))))
   \<and> (returned (step s a) = Inr img \<longrightarrow>
      (\<exists>frames idx lat cond nl nf. generated_frames s = Some frames
         \<and> tokenize (vt s) (slice_from frames (- context_window s)) = Inr idx
         \<and> get_latents_from_indices (vt_quantizer (vt s)) idx None = Inr lat
         \<and> conditioned s a cond
         \<and> forward_inference (dynamics s) lat (prediction_horizon s) 10
               (\<lambda>i. get_latents_from_indices (vt_quantizer (vt s)) i (Some (- 1))) cond
               (temperature s) (amp s) = Inr nl
         \<and> detokenize (vt s) nl = Inr nf \<and> nf \<noteq> []
         \<and> img = map (map (map display)) (permute_1_2_0 (last nf))))
   \<and> to_uint8_rgb f = map (map (map display)) (permute_1_2_0 f)
   \<and> uint (display v) = \<lfloor>float32 (float32 (clamp (- 1) 1 v + 1) * 127.5)\<rfloor>
   \<and> \<bar>float32 (float32 (clamp (- 1) 1 v + 1) * 127.5) - (clamp (- 1) 1 v + 1) * 127.5\<bar> < 1 / 2
   \<and> 0 \<le> uint (display v) \<and> uint (display v) \<le> 255
   \<and> display (- 1) = 0 \<and> display 1 = 255
   \<and> (v \<le> - 1 \<longrightarrow> display v = 0) \<and> (1 \<le> v \<longrightarrow> display v = 255)
   \<and> display_spec v - 1 \<le> uint (display v) \<and> uint (display v) \<le> display_spec v"
proof -
  have r: "0 \<le> uint (display v)" "uint (display v) \<le> 255"
    using scaled_range [of v] by (simp_all add: uint_display floor_le_iff)
  have 1: "returned (step s a) = Inr img \<longrightarrow>
      (\<exists>l nf. DetokenizeC l \<in> set (calls (step s a)) \<and> detokenize (vt s) l = Inr nf \<and> nf \<noteq> []
         \<and> img = map (map (map display)) (permute_1_2_0 (last nf)))"
    using step_returned_display [of s a img] by blast
  have 2: "returned (step s a) = Inr img \<longrightarrow>
      (\<exists>frames idx lat cond nl nf. generated_frames s = Some frames
         \<and> tokenize (vt s) (slice_from frames (- context_window s)) = Inr idx
         \<and> get_latents_from_indices (vt_quantizer (vt s)) idx None = Inr lat
         \<and> conditioned s a cond
         \<and> forward_inference (dynamics s) lat (prediction_horizon s) 10
               (\<lambda>i. get_latents_from_indices (vt_quantizer (vt s)) i (Some (- 1))) cond
               (temperature s) (amp s) = Inr nl
         \<and> detokenize (vt s) nl = Inr nf \<and> nf \<noteq> []
         \<and> img = map (map (map display)) (permute_1_2_0 (last nf)))"
    by (rule impI) (rule step_chain_display)
  have lo: "v \<le> - 1 \<longrightarrow> display v = 0" and hi: "1 \<le> v \<longrightarrow> display v = 255"
    by (simp_all add: display_low display_high)
  have e: "display (- 1) = 0" "display 1 = 255"
    by (simp_all add: display_low display_high)
  note n = display_near_spec [of v]
  show ?thesis
    by (intro conjI 1 2 to_uint8_rgb_display uint_display display_error r e lo hi
        n [THEN conjunct1] n [THEN conjunct2])
qed

text \<open>
  On the seeded session; below and above the signed range; at \<open>1 - 2^-24\<close>, where the
  sum with 1 rounds to 2; at a value whose product rounds up to 96; and at 0.
\<close>

theorem display_conversion_witness:
  "returned (step seeded 2) = Inr [[[255]]]
   \<and> detokenize (vt seeded) [[[[1]]], [[[- 1]]], [[[1]]]] = Inr [[[[1]]], [[[- 1]]], [[[1]]]]
   \<and> [[[255]]] = map (map (map display)) (permute_1_2_0 (last [[[[1]]], [[[- 1]]], [[[1]]]]))
   \<and> (- 2 :: real) \<le> - 1 \<and> display (- 2) = 0
   \<and> (1 :: real) \<le> 3 \<and> display 3 = 255
   \<and> display (- 1) = 0 \<and> display 1 = 255
   \<and> display (16777215 / 16777216) = 255 \<and> display_spec (16777215 / 16777216) = 255
   \<and> display (- 16579837 / 67108864) = 96 \<and> display_spec (- 16579837 / 67108864) = 96
   \<and> display 0 = 127"
proof -
  have r: "returned (step seeded 2) = Inr [[[255]]]" by (simp add: step_seeded)
  have d: "detokenize (vt seeded) l = Inr l" for l
    by (simp add: seeded_def fake_defs)
  from display_conversion [of seeded 2 "[[[255]]]" "[]" "- 2"] r
  have 1: "\<exists>l nf. DetokenizeC l \<in> set (calls (step seeded 2)) \<and> detokenize (vt seeded) l = Inr nf
    \<and> nf \<noteq> [] \<and> [[[255]]] = map (map (map display)) (permute_1_2_0 (last nf))"
    and 2: "display (- 2) = 0"
    by simp_all
  from 1 have i: "[[[255]]] = map (map (map display)) (permute_1_2_0 (last [[[[1]]], [[[- 1]]], [[[1]]]]))"
    by (auto simp: step_seeded d)
  from display_conversion [of seeded 2 "[[[255]]]" "[]" 3]
  have 3: "display 3 = 255" "display (- 1) = 0" "display 1 = 255"
    by simp_all
  have s: "display_spec (16777215 / 16777216) = 255" "display_spec (- 16579837 / 67108864) = 96"
    by (simp_all add: display_spec_def round_def)
  from r d i 2 3 s display_below_one display_carried display_zero show ?thesis
    by simp
qed

text \<open>
  The conversion does not round. The decoder of \<open>short_seed\<close> returns a last frame whose
  one value is 0; \<open>(0 + 1) * 127.5 = 127.5\<close>, all exact in float32; the step returns 127,
  and the specification's formula gives 128.
\<close>

theorem display_conversion_counterexample:
  "DetokenizeC [[[[0]]], [[[0]]]] \<in> set (calls (step short_seed 0))
   \<and> returned (step short_seed 0) = Inr [[[127]]]
   \<and> uint (display 0) = 127
   \<and> display_spec 0 = 128"
  by (simp add: step_short_seed) (simp add: display_zero display_spec_def round_def)

subsection \<open>C5: a step before the first context\<close>

text \<open>
  C5. A new session has no history. On a session that has none, \<open>step\<close> raises the
  \<^verbatim>\<open>RuntimeError\<close> of line 62 (the specification's UninitializedSessionError) without
  calling any model, returns no frame, and leaves the session without a history.
\<close>

theorem step_before_initialize:
  "generated_frames (GenieInferenceSession v l d dev w t h am) = None
   \<and> (generated_frames s = None \<longrightarrow>
        step s a = \<lparr> session_after = s, calls = [],
                     returned = Inl (RuntimeError ''Call set_initial_context first'') \<rparr>
        \<and> generated_frames (session_after (step s a)) = None
        \<and> history_length (session_after (step s a)) = 0)"
  by (simp add: step_uninitialized GenieInferenceSession_def history_length_def)

text \<open>On a session just built.\<close>

theorem step_before_initialize_witness:
  "generated_frames (fake_session 2 1) = None
   \<and> step (fake_session 2 1) 0 =
       \<lparr> session_after = fake_session 2 1, calls = [],
         returned = Inl (RuntimeError ''Call set_initial_context first'') \<rparr>
   \<and> history_length (session_after (step (fake_session 2 1) 0)) = 0"
proof -
  have "generated_frames (fake_session 2 1) = None" "history_length (fake_session 2 1) = 0"
    by (simp_all add: fake_session_def GenieInferenceSession_def history_length_def)
  with step_before_initialize [of fake_vt "Some fake_lam" fake_dynamics "''cpu''" 2 "0.5" 1 True
      "fake_session 2 1" 0]
  show ?thesis by simp
qed

subsection \<open>C6: the context window\<close>

lemma step_appends:
  assumes "generated_frames s = Some frames"
  shows "\<exists>new. generated_frames (session_after (step s a)) = Some (frames @ new)"
  using assms
  by (cases rule: step_cases [where s = s and a = a])
     (auto simp: step_raises step_mismatch step_returns)

lemma steps_append_only:
  "steps s0 as = Some s \<Longrightarrow> generated_frames s0 = Some seed \<Longrightarrow>
   context_window s = context_window s0 \<and> (\<exists>new. generated_frames s = Some (seed @ new))"
proof (induction as arbitrary: s0 seed)
  case Nil
  then show ?case by simp
next
  case (Cons a as)
  from Cons.prems(1) have run: "steps (session_after (step s0 a)) as = Some s"
    by (simp split: sum.splits)
  from step_appends [OF Cons.prems(2), of a] obtain new1
    where g: "generated_frames (session_after (step s0 a)) = Some (seed @ new1)" by blast
  from Cons.IH [OF run g] obtain new2
    where "context_window s = context_window (session_after (step s0 a))"
      "generated_frames s = Some ((seed @ new1) @ new2)" by blast
  moreover have "context_window (session_after (step s0 a)) = context_window s0"
    by (subst step_unchanged_fields) simp
  ultimately show ?case by simp
qed

text \<open>
  C6. Take a session whose context window W is at least 1 and whose history holds at
  least W frames, and any session reached from it by steps that all returned a frame.
  Its history is the first history followed by the frames appended since, in order, and
  on the next step, whatever the action, the one context given to the tokenizer is the
  last W frames of that history: W frames exactly. The step goes by what the models
  answer on that window: if \<^verbatim>\<open>tokenize\<close> raises on it, or the video quantizer on its
  indices, or \<^verbatim>\<open>forward_inference\<close> on the latents of its indices, the step raises that
  exception; if \<^verbatim>\<open>forward_inference\<close> returns latents that decode to frames of the shape
  of the history, the step returns the last of them; and a frame that the step returns
  is decoded from what \<^verbatim>\<open>forward_inference\<close> returned on the latents of the indices of
  the window.
\<close>

theorem context_is_last_window:
  assumes "generated_frames s0 = Some seed"
    and "1 \<le> context_window s0"
    and "nat (context_window s0) \<le> length seed"
    and "steps s0 as = Some s"
  shows "\<exists>new window. generated_frames s = Some (seed @ new)
    \<and> window = drop (length (seed @ new) - nat (context_window s0)) (seed @ new)
    \<and> length window = nat (context_window s0)
    \<and> calls (step s a) \<noteq> [] \<and> hd (calls (step s a)) = TokenizeC window
    \<and> (\<forall>ctx. TokenizeC ctx \<in> set (calls (step s a)) \<longrightarrow> ctx = window)
    \<and> (\<forall>l h n cond t am. ForwardInferenceC l h n cond t am \<in> set (calls (step s a)) \<longrightarrow>
          (\<exists>idx. tokenize (vt s) window = Inr idx
             \<and> get_latents_from_indices (vt_quantizer (vt s)) idx None = Inr l))
    \<and> (\<forall>e. tokenize (vt s) window = Inl e \<longrightarrow> returned (step s a) = Inl e)
    \<and> (\<forall>idx e. tokenize (vt s) window = Inr idx
          \<and> get_latents_from_indices (vt_quantizer (vt s)) idx None = Inl e \<longrightarrow>
          returned (step s a) = Inl e)
    \<and> (\<forall>idx lat cond e. tokenize (vt s) window = Inr idx
          \<and> get_latents_from_indices (vt_quantizer (vt s)) idx None = Inr lat
          \<and> conditioned s a cond
          \<and> forward_inference (dynamics s) lat (prediction_horizon s) 10
                (\<lambda>i. get_latents_from_indices (vt_quantizer (vt s)) i (Some (- 1))) cond
                (temperature s) (amp s) = Inl e \<longrightarrow>
          returned (step s a) = Inl e)
    \<and> (\<forall>idx lat cond nl nf. tokenize (vt s) window = Inr idx
          \<and> get_latents_from_indices (vt_quantizer (vt s)) idx None = Inr lat
          \<and> conditioned s a cond
          \<and> forward_inference (dynamics s) lat (prediction_horizon s) 10
                (\<lambda>i. get_latents_from_indices (vt_quantizer (vt s)) i (Some (- 1))) cond
                (temperature s) (amp s) = Inr nl
          \<and> detokenize (vt s) nl = Inr nf \<and> nf \<noteq> [] \<and> shaped_like (seed @ new) nf \<longrightarrow>
          returned (step s a) = Inr (to_uint8_rgb (last nf)))
    \<and> (\<forall>img. returned (step s a) = Inr img \<longrightarrow>
          (\<exists>idx lat cond nl nf. tokenize (vt s) window = Inr idx
            \<and> get_latents_from_indices (vt_quantizer (vt s)) idx None = Inr lat
            \<and> conditioned s a cond
            \<and> forward_inference (dynamics s) lat (prediction_horizon s) 10
                  (\<lambda>i. get_latents_from_indices (vt_quantizer (vt s)) i (Some (- 1))) cond
                  (temperature s) (amp s) = Inr nl
            \<and> detokenize (vt s) nl = Inr nf \<and> img = to_uint8_rgb (last nf)))"
proof -
  from steps_append_only [OF assms(4) assms(1)] obtain new
    where w: "context_window s = context_window s0"
      and g: "generated_frames s = Some (seed @ new)" by blast
  let ?window = "drop (length (seed @ new) - nat (context_window s0)) (seed @ new)"
  from assms(2) w have sl: "slice_from (seed @ new) (- context_window s) = ?window"
    by (simp add: slice_from_last)
  from assms(3) have len: "length ?window = nat (context_window s0)"
    by simp
  from step_context [OF g, of a] sl
  have lab: "calls (step s a) \<noteq> []" "hd (calls (step s a)) = TokenizeC ?window"
    "\<forall>ctx. TokenizeC ctx \<in> set (calls (step s a)) \<longrightarrow> ctx = ?window"
    "\<forall>l h n cond t am. ForwardInferenceC l h n cond t am \<in> set (calls (step s a)) \<longrightarrow>
          (\<exists>idx. tokenize (vt s) ?window = Inr idx
             \<and> get_latents_from_indices (vt_quantizer (vt s)) idx None = Inr l)"
    by simp_all
  have 1: "\<forall>e. tokenize (vt s) ?window = Inl e \<longrightarrow> returned (step s a) = Inl e"
    using run_models_tokenizer_fails [of s "seed @ new" _ a] step_of_error [OF g, of a] sl
    by auto
  have 2: "\<forall>idx e. tokenize (vt s) ?window = Inr idx
          \<and> get_latents_from_indices (vt_quantizer (vt s)) idx None = Inl e \<longrightarrow>
          returned (step s a) = Inl e"
    using run_models_latents_fail [of s "seed @ new" _ _ a] step_of_error [OF g, of a] sl
    by auto
  have 3: "\<forall>idx lat cond e. tokenize (vt s) ?window = Inr idx
          \<and> get_latents_from_indices (vt_quantizer (vt s)) idx None = Inr lat
          \<and> conditioned s a cond
          \<and> forward_inference (dynamics s) lat (prediction_horizon s) 10
                (\<lambda>i. get_latents_from_indices (vt_quantizer (vt s)) i (Some (- 1))) cond
                (temperature s) (amp s) = Inl e \<longrightarrow>
          returned (step s a) = Inl e"
    using step_chain_raises(1) [OF g, of _ _ a] sl by auto
  have 4: "\<forall>idx lat cond nl nf. tokenize (vt s) ?window = Inr idx
          \<and> get_latents_from_indices (vt_quantizer (vt s)) idx None = Inr lat
          \<and> conditioned s a cond
          \<and> forward_inference (dynamics s) lat (prediction_horizon s) 10
                (\<lambda>i. get_latents_from_indices (vt_quantizer (vt s)) i (Some (- 1))) cond
                (temperature s) (amp s) = Inr nl
          \<and> detokenize (vt s) nl = Inr nf \<and> nf \<noteq> [] \<and> shaped_like (seed @ new) nf \<longrightarrow>
          returned (step s a) = Inr (to_uint8_rgb (last nf))"
    using step_chain_raises(3) [OF g, of _ _ a] sl by auto
  have 5: "\<forall>img. returned (step s a) = Inr img \<longrightarrow>
          (\<exists>idx lat cond nl nf. tokenize (vt s) ?window = Inr idx
            \<and> get_latents_from_indices (vt_quantizer (vt s)) idx None = Inr lat
            \<and> conditioned s a cond
            \<and> forward_inference (dynamics s) lat (prediction_horizon s) 10
                  (\<lambda>i. get_latents_from_indices (vt_quantizer (vt s)) i (Some (- 1))) cond
                  (temperature s) (amp s) = Inr nl
            \<and> detokenize (vt s) nl = Inr nf \<and> img = to_uint8_rgb (last nf))"
  proof (intro allI impI)
    fix img assume "returned (step s a) = Inr img"
    from step_chain_returned [OF this] obtain frames idx lat cond nl nf
      where c: "generated_frames s = Some frames"
        "tokenize (vt s) (slice_from frames (- context_window s)) = Inr idx"
        "get_latents_from_indices (vt_quantizer (vt s)) idx None = Inr lat"
        "conditioned s a cond"
        "forward_inference (dynamics s) lat (prediction_horizon s) 10
            (\<lambda>i. get_latents_from_indices (vt_quantizer (vt s)) i (Some (- 1))) cond
            (temperature s) (amp s) = Inr nl"
        "detokenize (vt s) nl = Inr nf" "img = to_uint8_rgb (last nf)"
      by blast
    from c(1) g have "frames = seed @ new" by simp
    with c(2) sl have t: "tokenize (vt s) ?window = Inr idx" by simp
    show "\<exists>idx lat cond nl nf. tokenize (vt s) ?window = Inr idx
            \<and> get_latents_from_indices (vt_quantizer (vt s)) idx None = Inr lat
            \<and> conditioned s a cond
            \<and> forward_inference (dynamics s) lat (prediction_horizon s) 10
                  (\<lambda>i. get_latents_from_indices (vt_quantizer (vt s)) i (Some (- 1))) cond
                  (temperature s) (amp s) = Inr nl
            \<and> detokenize (vt s) nl = Inr nf \<and> img = to_uint8_rgb (last nf)"
      by (intro exI conjI) (rule t c(3-7))+
  qed
  show ?thesis
    by (intro exI [of _ new] exI [of _ ?window] conjI g refl len lab 1 2 3 4 5)
qed

text \<open>
  After two steps of the strict session the window is the last two of four frames; its
  dynamics model raises on a context of any other length, as it does on the whole
  history.
\<close>

lemma steps_strict:
  "steps strict [1, 4] = Some strict4"
  by (simp add: strict4_def strict_def more_fake_defs fake_defs eval_defs torch_tensor_int_def)

lemma strict4_facts:
  "lam strict4 = Some strict_lam"
  "generated_frames strict4 = Some [[[[1]]], [[[- 1]]], [[[1]]], [[[- 1]]]]"
  "context_window strict4 = 2" "prediction_horizon strict4 = 1"
  "temperature strict4 = 0.5" "amp strict4"
  "tokenize (vt strict4) v = Inr v"
  "get_latents_from_indices (vt_quantizer (vt strict4)) v d = Inr v"
  "detokenize (vt strict4) v = Inr v"
  "forward_inference (dynamics strict4) [[[[1]]], [[[- 1]]]] 1 10
     (\<lambda>i. get_latents_from_indices (vt_quantizer (vt strict4)) i (Some (- 1))) (Some 7) 0.5 True
     = Inr [[[[1]]], [[[- 1]]], [[[1]]]]"
  "forward_inference (dynamics strict4) [[[[1]]], [[[- 1]]], [[[1]]], [[[- 1]]]] 1 10
     (\<lambda>i. get_latents_from_indices (vt_quantizer (vt strict4)) i (Some (- 1))) (Some 7) 0.5 True
     = Inl (ModelError ''arguments'')"
  by (simp_all add: strict4_def strict_def more_fake_defs fake_defs)

theorem context_is_last_window_witness:
  "generated_frames strict = Some [[[[1]]], [[[- 1]]]]
   \<and> 1 \<le> context_window strict
   \<and> nat (context_window strict) \<le> length [[[[1 :: real]]], [[[- 1]]]]
   \<and> steps strict [1, 4] = Some strict4
   \<and> generated_frames strict4 = Some [[[[1]]], [[[- 1]]], [[[1]]], [[[- 1]]]]
   \<and> hd (calls (step strict4 7)) = TokenizeC [[[[1]]], [[[- 1]]]]
   \<and> forward_inference (dynamics strict4) [[[[1]]], [[[- 1]]]] (prediction_horizon strict4) 10
        (\<lambda>i. get_latents_from_indices (vt_quantizer (vt strict4)) i (Some (- 1))) (Some 7)
        (temperature strict4) (amp strict4) = Inr [[[[1]]], [[[- 1]]], [[[1]]]]
   \<and> forward_inference (dynamics strict4) [[[[1]]], [[[- 1]]], [[[1]]], [[[- 1]]]]
        (prediction_horizon strict4) 10
        (\<lambda>i. get_latents_from_indices (vt_quantizer (vt strict4)) i (Some (- 1))) (Some 7)
        (temperature strict4) (amp strict4) = Inl (ModelError ''arguments'')
   \<and> returned (step strict4 7) = Inr [[[255]]]"
proof -
  note f = strict4_facts
  have g: "generated_frames strict = Some [[[[1]]], [[[- 1]]]]"
    and w: "context_window strict = 2"
    by (simp_all add: strict_facts)
  have w1: "1 \<le> context_window strict"
    and w2: "nat (context_window strict) \<le> length [[[[1 :: real]]], [[[- 1]]]]"
    by (simp_all add: w)
  have c: "conditioned strict4 7 (Some 7)"
    by (simp add: conditioned_def f strict_facts)
  have fw: "forward_inference (dynamics strict4) [[[[1]]], [[[- 1]]]] (prediction_horizon strict4) 10
        (\<lambda>i. get_latents_from_indices (vt_quantizer (vt strict4)) i (Some (- 1))) (Some 7)
        (temperature strict4) (amp strict4) = Inr [[[[1]]], [[[- 1]]], [[[1]]]]"
    using f(10) by (simp add: f(4-6))
  have fw4: "forward_inference (dynamics strict4) [[[[1]]], [[[- 1]]], [[[1]]], [[[- 1]]]]
        (prediction_horizon strict4) 10
        (\<lambda>i. get_latents_from_indices (vt_quantizer (vt strict4)) i (Some (- 1))) (Some 7)
        (temperature strict4) (amp strict4) = Inl (ModelError ''arguments'')"
    using f(11) by (simp add: f(4-6))
  from context_is_last_window [OF g w1 w2 steps_strict, of 7]
  obtain new window where n: "generated_frames strict4 = Some ([[[[1]]], [[[- 1]]]] @ new)"
    and d: "window = drop (length ([[[[1 :: real]]], [[[- 1]]]] @ new) - nat (context_window strict))
                    ([[[[1]]], [[[- 1]]]] @ new)"
    and h: "hd (calls (step strict4 7)) = TokenizeC window"
    and r: "\<forall>idx lat cond nl nf. tokenize (vt strict4) window = Inr idx
          \<and> get_latents_from_indices (vt_quantizer (vt strict4)) idx None = Inr lat
          \<and> conditioned strict4 7 cond
          \<and> forward_inference (dynamics strict4) lat (prediction_horizon strict4) 10
                (\<lambda>i. get_latents_from_indices (vt_quantizer (vt strict4)) i (Some (- 1))) cond
                (temperature strict4) (amp strict4) = Inr nl
          \<and> detokenize (vt strict4) nl = Inr nf \<and> nf \<noteq> []
          \<and> shaped_like ([[[[1]]], [[[- 1]]]] @ new) nf \<longrightarrow>
          returned (step strict4 7) = Inr (to_uint8_rgb (last nf))"
    by (elim exE conjE) (rule that)
  from n have new: "new = [[[[1]]], [[[- 1]]]]"
    by (simp add: f(2))
  with d have win: "window = [[[[1]]], [[[- 1]]]]"
    by (simp add: w)
  have sh: "shaped_like ([[[[1]]], [[[- 1]]]] @ new) [[[[1]]], [[[- 1]]], [[[1]]]]"
    by (simp add: new shaped_like_def frame_shape_def)
  from r [rule_format, of "[[[[1]]], [[[- 1]]]]" "[[[[1]]], [[[- 1]]]]" "Some 7"
      "[[[[1]]], [[[- 1]]], [[[1]]]]" "[[[[1]]], [[[- 1]]], [[[1]]]]"] c fw sh
  have "returned (step strict4 7) = Inr (to_uint8_rgb (last [[[[1]]], [[[- 1]]], [[[1]]]]))"
    by (simp add: win f(7-9))
  then have ret: "returned (step strict4 7) = Inr [[[255]]]"
    by (simp add: white_pixel)
  from h win have "hd (calls (step strict4 7)) = TokenizeC [[[[1]]], [[[- 1]]]]"
    by simp
  with g w1 w2 steps_strict f(2) fw fw4 ret show ?thesis by blast
qed

subsection \<open>C7: a message that does not decode\<close>

lemma handle_message_undecoded:
  "decode_action io m = Inl e \<Longrightarrow> handle_message io s m = (s, Inl e)"
  by (simp add: handle_message_def)

lemma handle_loop_append:
  "handle_loop io s before = (s', out, None) \<Longrightarrow>
   handle_loop io s (before @ ms) =
     (case handle_loop io s' ms of (s'', out', err) \<Rightarrow> (s'', out @ out', err))"
proof (induction before arbitrary: s out)
  case Nil
  then show ?case by (simp split: prod.splits)
next
  case (Cons m before)
  from Cons.prems obtain s1 png out1
    where m: "handle_message io s m = (s1, Inr png)"
      and l: "handle_loop io s1 before = (s', out1, None)" and o: "out = png # out1"
    by (auto split: prod.splits sum.splits)
  from Cons.IH [OF l] m o show ?case
    by (simp split: prod.splits)
qed

text \<open>
  C7, as the code has it. When a message does not decode to an action (\<^verbatim>\<open>json.loads\<close>,
  \<^verbatim>\<open>data.get\<close> or \<^verbatim>\<open>int\<close> raises), no step is made for it and the session stays as the
  messages before it left it; the exception is printed as a session error; and the
  handler ends there. The frames sent are those of the messages before, and whatever
  the client sends after the message is not read: the run is that of the connection
  closing right after the message.
\<close>

theorem undecoded_message_ends_handler:
  assumes "decode_action io m = Inl e"
    and "handle_loop io s before = (s', out, None)"
  shows "handle_message io s' m = (s', Inl e)
    \<and> handle_client io s (before @ m # rest)
        = (s', out, [ClientConnected, SessionError e, ClientDisconnected])
    \<and> handle_client io s (before @ m # rest) = handle_client io s (before @ [m])"
proof -
  have "handle_loop io s (before @ m # ms) = (s', out, Some e)" for ms
    using handle_loop_append [OF assms(2), of "m # ms"] handle_message_undecoded [OF assms(1), of s']
    by simp
  then show ?thesis
    using handle_message_undecoded [OF assms(1), of s']
    by (simp add: handle_client_def)
qed

lemma handle_message_seeded:
  "decode_action fake_io m = Inr a \<Longrightarrow>
   handle_message fake_io seeded m
     = (seeded\<lparr>generated_frames := Some [[[[1]]], [[[- 1]]], [[[1]]]]\<rparr>, Inr [[[255]]])"
  by (simp add: handle_message_def step_seeded frame_to_png_bytes_def) (simp add: fake_io_def)

text \<open>An action that is not an integer, after one good message and before another.\<close>

theorem undecoded_message_ends_handler_witness:
  \<open>decode_action fake_io ''{"action": "left"}'' = Inl ValueError
   \<and> handle_loop fake_io seeded [''{"action": 1}'']
       = (seeded\<lparr>generated_frames := Some [[[[1]]], [[[- 1]]], [[[1]]]]\<rparr>, [[[[255]]]], None)
   \<and> handle_client fake_io seeded [''{"action": 1}'', ''{"action": "left"}'', ''{"action": 4}'']
       = (seeded\<lparr>generated_frames := Some [[[[1]]], [[[- 1]]], [[[1]]]]\<rparr>, [[[[255]]]],
          [ClientConnected, SessionError ValueError, ClientDisconnected])\<close>
proof -
  have l: \<open>handle_loop fake_io seeded [''{"action": 1}'']
       = (seeded\<lparr>generated_frames := Some [[[[1]]], [[[- 1]]], [[[1]]]]\<rparr>, [[[[255]]]], None)\<close>
    by (simp add: handle_message_seeded [OF decode_fake(1)])
  from undecoded_message_ends_handler [OF decode_fake(3) l, of \<open>[''{"action": 4}'']\<close>] l decode_fake(3)
  show ?thesis by simp
qed

text \<open>
  The connection does not stay open. A truncated JSON text followed by a good message:
  the handler prints the error and returns, no frame is sent and the session has made
  no step, though the good message alone is answered with a frame.
\<close>

theorem undecoded_message_ends_handler_counterexample:
  \<open>handle_client fake_io seeded [''{"action": '', ''{"action": 1}'']
     = (seeded, [], [ClientConnected, SessionError JSONDecodeError, ClientDisconnected])
   \<and> handle_client fake_io seeded [''{"action": 1}'']
     = (seeded\<lparr>generated_frames := Some [[[[1]]], [[[- 1]]], [[[1]]]]\<rparr>, [[[[255]]]],
        [ClientConnected, ClientDisconnected])\<close>
  by (simp add: handle_client_def handle_message_undecoded [OF decode_fake(4)]
      handle_message_seeded [OF decode_fake(1)])

subsection \<open>C8: the session of a connection\<close>

lemma serve_one_connection:
  "c \<notin> set (finished sv) \<Longrightarrow> handle_loop io (shared_session sv) ms = (s', out, err) \<Longrightarrow>
   shared_session (serve io sv (map (Pair c) ms)) = s'
   \<and> delivered (serve io sv (map (Pair c) ms)) = delivered sv @ map (Pair c) out
   \<and> set (finished (serve io sv (map (Pair c) ms))) \<subseteq> insert c (set (finished sv))"
proof (induction ms arbitrary: sv out)
  case Nil
  then show ?case by auto
next
  case (Cons m ms)
  show ?case
  proof (cases "handle_message io (shared_session sv) m")
    case (Pair s1 r)
    show ?thesis
    proof (cases r)
      case (Inl e)
      have skip: "serve io sv' (map (Pair c) xs) = sv'" if "c \<in> set (finished sv')" for sv' xs
        using that by (induction xs) simp_all
      from Cons.prems Pair Inl show ?thesis
        by (auto simp: skip)
    next
      case (Inr png)
      from Cons.prems(2) Pair Inr obtain out1
        where l: "handle_loop io s1 ms = (s', out1, err)" and o: "out = png # out1"
        by (auto split: prod.splits)
      let ?sv = "sv\<lparr>shared_session := s1, delivered := delivered sv @ [(c, png)]\<rparr>"
      from Cons.prems(1) have "c \<notin> set (finished ?sv)" by simp
      from Cons.IH [OF this, of out1] l
      have "shared_session (serve io ?sv (map (Pair c) ms)) = s'"
        "delivered (serve io ?sv (map (Pair c) ms)) = delivered ?sv @ map (Pair c) out1"
        "set (finished (serve io ?sv (map (Pair c) ms))) \<subseteq> insert c (set (finished ?sv))"
        by simp_all
      with Cons.prems(1) Pair Inr o show ?thesis by simp
    qed
  qed
qed

lemma serve_as_one_handler:
  "finished sv = [] \<Longrightarrow> handle_loop io (shared_session sv) (map snd evs) = (s', out, None) \<Longrightarrow>
   shared_session (serve io sv evs) = s'
   \<and> map snd (delivered (serve io sv evs)) = map snd (delivered sv) @ out
   \<and> finished (serve io sv evs) = []"
proof (induction evs arbitrary: sv out)
  case Nil
  then show ?case by simp
next
  case (Cons ev evs)
  obtain c m where ev: "ev = (c, m)" by (cases ev)
  from Cons.prems(2) ev obtain s1 png out1
    where m: "handle_message io (shared_session sv) m = (s1, Inr png)"
      and l: "handle_loop io s1 (map snd evs) = (s', out1, None)" and o: "out = png # out1"
    by (auto split: prod.splits sum.splits)
  let ?sv = "sv\<lparr>shared_session := s1, delivered := delivered sv @ [(c, png)]\<rparr>"
  from Cons.prems(1) have "finished ?sv = []" by simp
  from Cons.IH [OF this, of out1] l
  have "shared_session (serve io ?sv evs) = s'"
    "map snd (delivered (serve io ?sv evs)) = map snd (delivered ?sv) @ out1"
    "finished (serve io ?sv evs) = []"
    by simp_all
  with Cons.prems(1) ev m o show ?case by simp
qed

lemma serve_append: "serve io sv (xs @ ys) = serve io (serve io sv xs) ys"
  by (induction xs arbitrary: sv) (auto split: prod.splits sum.splits)

lemma serve_two_connections:
  assumes ne: "c \<noteq> c'"
    and l1: "handle_loop io s ms = (s1, out1, err1)"
    and l2: "handle_loop io s1 ms' = (s2, out2, err2)"
  shows "shared_session (serve io (start s) (map (Pair c) ms @ map (Pair c') ms')) = s2
    \<and> frames_of c (serve io (start s) (map (Pair c) ms @ map (Pair c') ms')) = out1
    \<and> frames_of c' (serve io (start s) (map (Pair c) ms @ map (Pair c') ms')) = out2"
proof -
  let ?sv1 = "serve io (start s) (map (Pair c) ms)"
  have s0: "c \<notin> set (finished (start s))" "shared_session (start s) = s"
    "delivered (start s) = []" "finished (start s) = []"
    by (simp_all add: start_def)
  from l1 have l1': "handle_loop io (shared_session (start s)) ms = (s1, out1, err1)"
    by (simp add: start_def)
  from serve_one_connection [OF s0(1) l1']
  have a: "shared_session ?sv1 = s1" "delivered ?sv1 = map (Pair c) out1"
    "set (finished ?sv1) \<subseteq> {c}"
    by (auto simp: start_def)
  from a(3) ne have "c' \<notin> set (finished ?sv1)"
    by auto
  moreover from l2 a(1) have "handle_loop io (shared_session ?sv1) ms' = (s2, out2, err2)"
    by simp
  ultimately have "shared_session (serve io ?sv1 (map (Pair c') ms')) = s2
    \<and> delivered (serve io ?sv1 (map (Pair c') ms')) = delivered ?sv1 @ map (Pair c') out2
    \<and> set (finished (serve io ?sv1 (map (Pair c') ms'))) \<subseteq> insert c' (set (finished ?sv1))"
    by (rule serve_one_connection)
  with a
  have "shared_session (serve io ?sv1 (map (Pair c') ms')) = s2"
    "delivered (serve io ?sv1 (map (Pair c') ms')) = map (Pair c) out1 @ map (Pair c') out2"
    by simp_all
  with ne show ?thesis
    by (simp add: serve_append frames_of_def filter_map comp_def)
qed

text \<open>
  C8, as the code has it. \<^verbatim>\<open>main\<close> builds one session before the server starts, and the
  handler of every connection is given that session: none is made for a connection and
  none is dropped when a connection closes. As long as no message fails, the session and
  the frames sent are those of one handler reading all the messages in their order of
  arrival, whatever connections they came from. When a connection is served after
  another, its handler starts from the session the first one left, history included,
  and each client receives the frames of its own handler.
\<close>

theorem connections_share_one_session:
  "(handle_loop io s (map snd evs) = (s', out, None) \<longrightarrow>
      shared_session (serve io (start s) evs) = s'
      \<and> map snd (delivered (serve io (start s) evs)) = out)
   \<and> (c \<noteq> c' \<and> handle_loop io s ms = (s1, out1, err1)
        \<and> handle_loop io s1 ms' = (s2, out2, err2) \<longrightarrow>
      shared_session (serve io (start s) (map (Pair c) ms @ map (Pair c') ms')) = s2
      \<and> frames_of c (serve io (start s) (map (Pair c) ms @ map (Pair c') ms')) = out1
      \<and> frames_of c' (serve io (start s) (map (Pair c) ms @ map (Pair c') ms')) = out2)"
proof -
  have "shared_session (serve io (start s) evs) = s'
      \<and> map snd (delivered (serve io (start s) evs)) = out"
    if "handle_loop io s (map snd evs) = (s', out, None)"
    using serve_as_one_handler [of "start s" io evs s' out] that by (simp add: start_def)
  with serve_two_connections [of c c' io s ms s1 out1 err1 ms' s2 out2 err2]
  show ?thesis by blast
qed

text \<open>
  Two connections on the session seeded with frames of three channels, which the encoder
  of the test transport takes.
\<close>

lemma rgb_io_out:
  "png_encode rgb_io [[[255, 255, 255]]] = Inr [[[255, 255, 255]]]"
  "png_encode rgb_io [[[0, 0, 0]]] = Inr [[[0, 0, 0]]]"
  "png_encode rgb_io [[[255]]] = Inl TypeError"
  "send rgb_io b = Inr ()"
  by (simp_all add: rgb_io_def fake_io_def)

lemma decode_rgb: "decode_action rgb_io m = decode_action fake_io m"
proof -
  have "py_int rgb_io v = py_int fake_io v" for v
    by (cases v) (simp_all add: py_int_def rgb_io_def)
  moreover have "json_loads rgb_io m = json_loads fake_io m"
    by (simp add: rgb_io_def)
  ultimately show ?thesis
    by (simp add: decode_action_def split: sum.splits)
qed

lemma permute_rgb:
  "permute_1_2_0 [[[a]], [[b]], [[c]]] = [[[a, b, c]]]"
  by (simp add: permute_1_2_0_def)

lemma step_rgb_seeded:
  "session_after (step rgb_seeded a) = rgb_seeded3
   \<and> returned (step rgb_seeded a) = Inr [[[255, 255, 255]]]"
  by (simp add: rgb_seeded3_def rgb_seeded_def fake_defs step_def run_models_def predict_def
      model_call_def idx_to_latents_def slice_from_def index_last_def torch_cat_def
      sizes_match_def frame_shape_def torch_tensor_int_mod to_uint8_rgb_display permute_rgb
      display_low display_high Let_def)

lemma step_rgb_seeded3:
  "session_after (step rgb_seeded3 a) = rgb_seeded4
   \<and> returned (step rgb_seeded3 a) = Inr [[[0, 0, 0]]]"
  by (simp add: rgb_seeded3_def rgb_seeded4_def rgb_seeded_def fake_defs step_def
      run_models_def predict_def model_call_def idx_to_latents_def slice_from_def
      index_last_def torch_cat_def sizes_match_def frame_shape_def torch_tensor_int_mod
      to_uint8_rgb_display permute_rgb display_low display_high Let_def)

lemma handle_message_rgb_seeded:
  "decode_action fake_io m = Inr a \<Longrightarrow>
   handle_message rgb_io rgb_seeded m = (rgb_seeded3, Inr [[[255, 255, 255]]])"
  by (simp add: handle_message_def frame_to_png_bytes_def decode_rgb step_rgb_seeded rgb_io_out)

lemma handle_message_rgb_seeded3:
  "decode_action fake_io m = Inr a \<Longrightarrow>
   handle_message rgb_io rgb_seeded3 m = (rgb_seeded4, Inr [[[0, 0, 0]]])"
  by (simp add: handle_message_def frame_to_png_bytes_def decode_rgb step_rgb_seeded3 rgb_io_out)

theorem connections_share_one_session_witness:
  \<open>handle_loop rgb_io rgb_seeded (map snd [(1 :: nat, ''{"action": 1}''), (2, ''{"action": 4}'')])
     = (rgb_seeded4, [[[[255, 255, 255]]], [[[0, 0, 0]]]], None)
   \<and> shared_session (serve rgb_io (start rgb_seeded) [(1, ''{"action": 1}''), (2, ''{"action": 4}'')])
       = rgb_seeded4
   \<and> (1 :: nat) \<noteq> 2
   \<and> handle_loop rgb_io rgb_seeded [''{"action": 1}''] = (rgb_seeded3, [[[[255, 255, 255]]]], None)
   \<and> handle_loop rgb_io rgb_seeded3 [''{"action": 4}''] = (rgb_seeded4, [[[[0, 0, 0]]]], None)
   \<and> frames_of 1 (serve rgb_io (start rgb_seeded) [(1, ''{"action": 1}''), (2, ''{"action": 4}'')])
       = [[[[255, 255, 255]]]]
   \<and> frames_of 2 (serve rgb_io (start rgb_seeded) [(1, ''{"action": 1}''), (2, ''{"action": 4}'')])
       = [[[[0, 0, 0]]]]\<close>
proof -
  have l: \<open>handle_loop rgb_io rgb_seeded (map snd [(1 :: nat, ''{"action": 1}''), (2, ''{"action": 4}'')])
     = (rgb_seeded4, [[[[255, 255, 255]]], [[[0, 0, 0]]]], None)\<close>
    by (simp add: handle_message_rgb_seeded [OF decode_fake(1)]
        handle_message_rgb_seeded3 [OF decode_fake(2)])
  have l1: \<open>handle_loop rgb_io rgb_seeded [''{"action": 1}'']
      = (rgb_seeded3, [[[[255, 255, 255]]]], None)\<close>
    by (simp add: handle_message_rgb_seeded [OF decode_fake(1)])
  have l2: \<open>handle_loop rgb_io rgb_seeded3 [''{"action": 4}'']
      = (rgb_seeded4, [[[[0, 0, 0]]]], None)\<close>
    by (simp add: handle_message_rgb_seeded3 [OF decode_fake(2)])
  have ne: "(1 :: nat) \<noteq> 2" by simp
  from connections_share_one_session [of rgb_io rgb_seeded
      \<open>[(1, ''{"action": 1}''), (2, ''{"action": 4}'')]\<close> rgb_seeded4
      "[[[[255, 255, 255]]], [[[0, 0, 0]]]]"
      1 2 \<open>[''{"action": 1}'']\<close> rgb_seeded3 "[[[[255, 255, 255]]]]" None
      \<open>[''{"action": 4}'']\<close> rgb_seeded4 "[[[[0, 0, 0]]]]" None]
    l l1 l2 ne
  show ?thesis by simp
qed

text \<open>
  Two runs in which connection 2 sends the same single message. Alone, its client
  receives a white pixel; after one message on connection 1, a black one: the step of
  connection 1 has appended to the history from which the step of connection 2 takes
  its context.
\<close>

theorem connections_share_one_session_counterexample:
  \<open>frames_of 2 (serve rgb_io (start rgb_seeded) [(2, ''{"action": 1}'')])
     = [[[[255, 255, 255]]]]
   \<and> frames_of 2 (serve rgb_io (start rgb_seeded) [(1, ''{"action": 1}''), (2, ''{"action": 1}'')])
       = [[[[0, 0, 0]]]]
   \<and> generated_frames (shared_session (serve rgb_io (start rgb_seeded) [(1, ''{"action": 1}'')]))
       = Some [[[[1]], [[1]], [[1]]], [[[- 1]], [[- 1]], [[- 1]]], [[[1]], [[1]], [[1]]]]\<close>
proof -
  have a: "shared_session (start rgb_seeded :: (video, video, int, image) server) = rgb_seeded"
    "finished (start rgb_seeded :: (video, video, int, image) server) = []"
    "delivered (start rgb_seeded :: (video, video, int, image) server) = []"
    by (simp_all add: start_def)
  show ?thesis
    by (simp add: a handle_message_rgb_seeded [OF decode_fake(1)]
        handle_message_rgb_seeded3 [OF decode_fake(1)] frames_of_def)
       (simp add: rgb_seeded3_def)
qed

subsection \<open>C9: a first context shorter than the window\<close>

lemma set_initial_context_fields:
  "generated_frames (set_initial_context s frames) = Some frames"
  "context_window (set_initial_context s frames) = context_window s"
  "prediction_horizon (set_initial_context s frames) = prediction_horizon s"
  "temperature (set_initial_context s frames) = temperature s"
  "amp (set_initial_context s frames) = amp s"
  "vt (set_initial_context s frames) = vt s"
  "lam (set_initial_context s frames) = lam s"
  "dynamics (set_initial_context s frames) = dynamics s"
  "conditioned (set_initial_context s frames) a cond = conditioned s a cond"
  by (simp_all add: set_initial_context_def conditioned_def)

text \<open>
  C9. After \<^verbatim>\<open>set_initial_context\<close> with fewer frames than the context window, the context
  that a step gives to the tokenizer is the whole history, and the slice itself never
  raises. The step goes by what the models answer on the whole history: it raises what
  \<^verbatim>\<open>tokenize\<close> raises on it; when the models return, the decoder returns at least one
  frame and its frames have the shape of those of the history, the step returns the last
  decoded frame and appends the last H; and a frame that the step returns is decoded
  from the prediction on the latents of the whole history.
\<close>

theorem short_seed_underfills:
  assumes "int (length frames) < context_window s"
  shows "calls (step (set_initial_context s frames) a) \<noteq> []
    \<and> hd (calls (step (set_initial_context s frames) a)) = TokenizeC frames
    \<and> (\<forall>ctx. TokenizeC ctx \<in> set (calls (step (set_initial_context s frames) a))
          \<longrightarrow> ctx = frames)
    \<and> (\<forall>e. tokenize (vt s) frames = Inl e \<longrightarrow>
          returned (step (set_initial_context s frames) a) = Inl e)
    \<and> (\<forall>idx lat cond nl nf. tokenize (vt s) frames = Inr idx
          \<and> get_latents_from_indices (vt_quantizer (vt s)) idx None = Inr lat
          \<and> conditioned s a cond
          \<and> forward_inference (dynamics s) lat (prediction_horizon s) 10
                (\<lambda>i. get_latents_from_indices (vt_quantizer (vt s)) i (Some (- 1))) cond
                (temperature s) (amp s) = Inr nl
          \<and> detokenize (vt s) nl = Inr nf \<and> nf \<noteq> [] \<and> shaped_like frames nf \<longrightarrow>
          returned (step (set_initial_context s frames) a) = Inr (to_uint8_rgb (last nf))
          \<and> generated_frames (session_after (step (set_initial_context s frames) a))
              = Some (frames @ slice_from nf (- prediction_horizon s)))
    \<and> (\<forall>img. returned (step (set_initial_context s frames) a) = Inr img \<longrightarrow>
          (\<exists>idx lat cond nl nf. tokenize (vt s) frames = Inr idx
            \<and> get_latents_from_indices (vt_quantizer (vt s)) idx None = Inr lat
            \<and> conditioned s a cond
            \<and> forward_inference (dynamics s) lat (prediction_horizon s) 10
                  (\<lambda>i. get_latents_from_indices (vt_quantizer (vt s)) i (Some (- 1))) cond
                  (temperature s) (amp s) = Inr nl
            \<and> detokenize (vt s) nl = Inr nf \<and> img = to_uint8_rgb (last nf)))"
proof -
  let ?s = "set_initial_context s frames"
  note f = set_initial_context_fields [of s frames]
  from assms have sl: "slice_from frames (- context_window ?s) = frames"
    by (simp add: slice_from_short f)
  from step_context [OF f(1), of a] sl
  have c: "calls (step ?s a) \<noteq> []" "hd (calls (step ?s a)) = TokenizeC frames"
    "\<forall>ctx. TokenizeC ctx \<in> set (calls (step ?s a)) \<longrightarrow> ctx = frames"
    by simp_all
  have 1: "\<forall>e. tokenize (vt s) frames = Inl e \<longrightarrow> returned (step ?s a) = Inl e"
    using run_models_tokenizer_fails [of ?s frames _ a] step_of_error [OF f(1), of a] sl
    by (auto simp: f)
  have 2: "\<forall>idx lat cond nl nf. tokenize (vt s) frames = Inr idx
          \<and> get_latents_from_indices (vt_quantizer (vt s)) idx None = Inr lat
          \<and> conditioned s a cond
          \<and> forward_inference (dynamics s) lat (prediction_horizon s) 10
                (\<lambda>i. get_latents_from_indices (vt_quantizer (vt s)) i (Some (- 1))) cond
                (temperature s) (amp s) = Inr nl
          \<and> detokenize (vt s) nl = Inr nf \<and> nf \<noteq> [] \<and> shaped_like frames nf \<longrightarrow>
          returned (step ?s a) = Inr (to_uint8_rgb (last nf))
          \<and> generated_frames (session_after (step ?s a))
              = Some (frames @ slice_from nf (- prediction_horizon s))"
  proof (intro allI impI)
    fix idx lat cond nl nf
    assume h: "tokenize (vt s) frames = Inr idx
          \<and> get_latents_from_indices (vt_quantizer (vt s)) idx None = Inr lat
          \<and> conditioned s a cond
          \<and> forward_inference (dynamics s) lat (prediction_horizon s) 10
                (\<lambda>i. get_latents_from_indices (vt_quantizer (vt s)) i (Some (- 1))) cond
                (temperature s) (amp s) = Inr nl
          \<and> detokenize (vt s) nl = Inr nf \<and> nf \<noteq> [] \<and> shaped_like frames nf"
    have t: "tokenize (vt ?s) (slice_from frames (- context_window ?s)) = Inr idx"
      using h sl by (simp add: f)
    have l: "get_latents_from_indices (vt_quantizer (vt ?s)) idx None = Inr lat"
      using h by (simp add: f)
    have cd: "conditioned ?s a cond"
      using h by (simp add: f)
    have fw: "forward_inference (dynamics ?s) lat (prediction_horizon ?s) 10
           (\<lambda>i. get_latents_from_indices (vt_quantizer (vt ?s)) i (Some (- 1))) cond
           (temperature ?s) (amp ?s) = Inr nl"
      using h by (simp add: f)
    have d: "detokenize (vt ?s) nl = Inr nf"
      using h by (simp add: f)
    from step_chain_raises(3) [OF f(1) t l cd fw d] h
    have "returned (step ?s a) = Inr (to_uint8_rgb (last nf))"
      "session_after (step ?s a)
         = ?s\<lparr>generated_frames := Some (frames @ slice_from nf (- prediction_horizon ?s))\<rparr>"
      by blast+
    then show "returned (step ?s a) = Inr (to_uint8_rgb (last nf))
          \<and> generated_frames (session_after (step ?s a))
              = Some (frames @ slice_from nf (- prediction_horizon s))"
      by (simp add: f)
  qed
  have 3: "\<forall>img. returned (step ?s a) = Inr img \<longrightarrow>
          (\<exists>idx lat cond nl nf. tokenize (vt s) frames = Inr idx
            \<and> get_latents_from_indices (vt_quantizer (vt s)) idx None = Inr lat
            \<and> conditioned s a cond
            \<and> forward_inference (dynamics s) lat (prediction_horizon s) 10
                  (\<lambda>i. get_latents_from_indices (vt_quantizer (vt s)) i (Some (- 1))) cond
                  (temperature s) (amp s) = Inr nl
            \<and> detokenize (vt s) nl = Inr nf \<and> img = to_uint8_rgb (last nf))"
  proof (intro allI impI)
    fix img assume "returned (step ?s a) = Inr img"
    from step_chain_returned [OF this] obtain fs idx lat cond nl nf
      where k: "generated_frames ?s = Some fs"
        "tokenize (vt ?s) (slice_from fs (- context_window ?s)) = Inr idx"
        "get_latents_from_indices (vt_quantizer (vt ?s)) idx None = Inr lat"
        "conditioned ?s a cond"
        "forward_inference (dynamics ?s) lat (prediction_horizon ?s) 10
            (\<lambda>i. get_latents_from_indices (vt_quantizer (vt ?s)) i (Some (- 1))) cond
            (temperature ?s) (amp ?s) = Inr nl"
        "detokenize (vt ?s) nl = Inr nf" "img = to_uint8_rgb (last nf)"
      by blast
    from k(1) have "fs = frames" by (simp add: f)
    with k(2) sl have t: "tokenize (vt s) frames = Inr idx" by (simp add: f)
    from k(3) have l: "get_latents_from_indices (vt_quantizer (vt s)) idx None = Inr lat"
      by (simp add: f)
    from k(4) have cd: "conditioned s a cond" by (simp add: f)
    from k(5) have fw: "forward_inference (dynamics s) lat (prediction_horizon s) 10
            (\<lambda>i. get_latents_from_indices (vt_quantizer (vt s)) i (Some (- 1))) cond
            (temperature s) (amp s) = Inr nl"
      by (simp add: f)
    from k(6) have d: "detokenize (vt s) nl = Inr nf" by (simp add: f)
    show "\<exists>idx lat cond nl nf. tokenize (vt s) frames = Inr idx
            \<and> get_latents_from_indices (vt_quantizer (vt s)) idx None = Inr lat
            \<and> conditioned s a cond
            \<and> forward_inference (dynamics s) lat (prediction_horizon s) 10
                  (\<lambda>i. get_latents_from_indices (vt_quantizer (vt s)) i (Some (- 1))) cond
                  (temperature s) (amp s) = Inr nl
            \<and> detokenize (vt s) nl = Inr nf \<and> img = to_uint8_rgb (last nf)"
      by (intro exI conjI) (rule t l cd fw d k(7))+
  qed
  show ?thesis
    by (intro conjI c 1 2 3)
qed

text \<open>One seed frame for a window of two.\<close>

theorem short_seed_underfills_witness:
  "int (length [[[[0 :: real]]]]) < context_window (fake_session 2 1)
   \<and> set_initial_context (fake_session 2 1) [[[[0]]]] = short_seed
   \<and> tokenize (vt (fake_session 2 1)) [[[[0]]]] = Inr [[[[0]]]]
   \<and> get_latents_from_indices (vt_quantizer (vt (fake_session 2 1))) [[[[0]]]] None
       = Inr [[[[0]]]]
   \<and> conditioned (fake_session 2 1) 1 (Some 1)
   \<and> forward_inference (dynamics (fake_session 2 1)) [[[[0]]]]
        (prediction_horizon (fake_session 2 1)) 10
        (\<lambda>i. get_latents_from_indices (vt_quantizer (vt (fake_session 2 1))) i (Some (- 1)))
        (Some 1) (temperature (fake_session 2 1)) (amp (fake_session 2 1))
       = Inr [[[[0]]], [[[0]]]]
   \<and> detokenize (vt (fake_session 2 1)) [[[[0]]], [[[0]]]] = Inr [[[[0]]], [[[0]]]]
   \<and> shaped_like [[[[0]]]] [[[[0]]], [[[0]]]]
   \<and> hd (calls (step short_seed 1)) = TokenizeC [[[[0]]]]
   \<and> returned (step short_seed 1) = Inr [[[127]]]
   \<and> generated_frames (session_after (step short_seed 1)) = Some [[[[0]]], [[[0]]]]"
proof -
  let ?s = "fake_session 2 1"
  have h: "int (length [[[[0 :: real]]]]) < context_window ?s"
    and e: "set_initial_context ?s [[[[0]]]] = short_seed"
    by (simp_all add: fake_session_def short_seed_def fake_defs)
  have t: "tokenize (vt ?s) [[[[0]]]] = Inr [[[[0]]]]"
    and l: "get_latents_from_indices (vt_quantizer (vt ?s)) [[[[0]]]] None = Inr [[[[0]]]]"
    and c: "conditioned ?s 1 (Some 1)"
    and f: "forward_inference (dynamics ?s) [[[[0]]]] (prediction_horizon ?s) 10
        (\<lambda>i. get_latents_from_indices (vt_quantizer (vt ?s)) i (Some (- 1)))
        (Some 1) (temperature ?s) (amp ?s) = Inr [[[[0]]], [[[0]]]]"
    and d: "detokenize (vt ?s) [[[[0]]], [[[0]]]] = Inr [[[[0]]], [[[0]]]]"
    and p: "prediction_horizon ?s = 1"
    by (simp_all add: fake_session_def fake_defs conditioned_def)
  have sh: "shaped_like [[[[0]]]] [[[[0]]], [[[0]]]]"
    by (simp add: shaped_like_def frame_shape_def)
  have sl: "slice_from [[[[0 :: real]]], [[[0]]]] (- 1) = [[[[0]]]]"
    by (simp add: slice_from_def)
  have px: "to_uint8_rgb [[[0]]] = [[[127]]]"
    by (simp add: to_uint8_rgb_display permute_1_2_0_def display_zero)
  note th = short_seed_underfills [OF h, of 1, unfolded e]
  from th have hd: "hd (calls (step short_seed 1)) = TokenizeC [[[[0]]]]"
    by blast
  from th have "\<forall>idx lat cond nl nf. tokenize (vt ?s) [[[[0]]]] = Inr idx
          \<and> get_latents_from_indices (vt_quantizer (vt ?s)) idx None = Inr lat
          \<and> conditioned ?s 1 cond
          \<and> forward_inference (dynamics ?s) lat (prediction_horizon ?s) 10
                (\<lambda>i. get_latents_from_indices (vt_quantizer (vt ?s)) i (Some (- 1))) cond
                (temperature ?s) (amp ?s) = Inr nl
          \<and> detokenize (vt ?s) nl = Inr nf \<and> nf \<noteq> [] \<and> shaped_like [[[[0]]]] nf \<longrightarrow>
          returned (step short_seed 1) = Inr (to_uint8_rgb (last nf))
          \<and> generated_frames (session_after (step short_seed 1))
              = Some ([[[[0]]]] @ slice_from nf (- prediction_horizon ?s))"
    by (elim conjE)
  from this [rule_format, of "[[[[0]]]]" "[[[[0]]]]" "Some 1" "[[[[0]]], [[[0]]]]"
      "[[[[0]]], [[[0]]]]"] t l c f d sh
  have "returned (step short_seed 1) = Inr (to_uint8_rgb (last [[[[0]]], [[[0]]]]))"
    "generated_frames (session_after (step short_seed 1))
       = Some ([[[[0]]]] @ slice_from [[[[0]]], [[[0]]]] (- prediction_horizon ?s))"
    by simp_all
  then have r: "returned (step short_seed 1) = Inr [[[127]]]"
    "generated_frames (session_after (step short_seed 1)) = Some [[[[0]]], [[[0]]]]"
    by (simp_all add: px p sl)
  from h e t l c f d sh hd r show ?thesis by blast
qed

subsection \<open>C10: what a step changes\<close>

lemma predict_forward_args:
  "predict s lat c = (cs, r) \<Longrightarrow> ForwardInferenceC l h n cond t am \<in> set cs \<Longrightarrow>
   n = 10 \<and> h = prediction_horizon s \<and> t = temperature s \<and> am = amp s"
  by (auto simp: predict_def model_call_def split: sum.splits prod.splits)

lemma run_models_forward_args:
  "run_models s frames a = (cs, r) \<Longrightarrow> ForwardInferenceC l h n cond t am \<in> set cs \<Longrightarrow>
   n = 10 \<and> h = prediction_horizon s \<and> t = temperature s \<and> am = amp s"
  unfolding run_models_def Let_def
  by (auto simp: model_call_def split: sum.splits prod.splits option.splits if_splits
      dest: predict_forward_args)

lemma step_forward_args:
  assumes "ForwardInferenceC l h n cond t am \<in> set (calls (step s a))"
  shows "n = 10 \<and> h = prediction_horizon s \<and> t = temperature s \<and> am = amp s"
proof (cases "generated_frames s")
  case None
  with assms show ?thesis by (simp add: step_uninitialized)
next
  case (Some frames)
  obtain cs r where rm: "run_models s frames a = (cs, r)" by force
  with Some assms run_models_forward_args [OF rm, of l h n cond t am] show ?thesis
    by (simp add: calls_step)
qed

text \<open>
  C10. The session a step leaves differs from the one it was given in \<^verbatim>\<open>generated_frames\<close>
  at most: the models, the device, the context window, the temperature, the prediction
  horizon and the autocast flag are those of the session before, whether the step
  returns a frame or raises. \<^verbatim>\<open>forward_inference\<close> is applied with the number of steps
  10, the horizon, the temperature and the autocast flag of the session: every recorded
  call has these arguments; when the application to the context latents with 10 steps
  raises, the step raises that exception; when it returns latents that decode to frames
  of the shape of the history, the step returns the last of them and appends the last H;
  and every frame that a step returns comes from such an application.
\<close>

theorem step_frame_effect:
  "session_after (step s a) = s\<lparr>generated_frames := generated_frames (session_after (step s a))\<rparr>
   \<and> vt (session_after (step s a)) = vt s
   \<and> lam (session_after (step s a)) = lam s
   \<and> dynamics (session_after (step s a)) = dynamics s
   \<and> device (session_after (step s a)) = device s
   \<and> context_window (session_after (step s a)) = context_window s
   \<and> temperature (session_after (step s a)) = temperature s
   \<and> prediction_horizon (session_after (step s a)) = prediction_horizon s
   \<and> amp (session_after (step s a)) = amp s
   \<and> (\<forall>l h n c t am. ForwardInferenceC l h n c t am \<in> set (calls (step s a))
         \<longrightarrow> n = 10 \<and> h = prediction_horizon s \<and> t = temperature s \<and> am = amp s)
   \<and> (generated_frames s = Some frames
        \<and> tokenize (vt s) (slice_from frames (- context_window s)) = Inr idx
        \<and> get_latents_from_indices (vt_quantizer (vt s)) idx None = Inr lat
        \<and> conditioned s a cond \<longrightarrow>
        (forward_inference (dynamics s) lat (prediction_horizon s) 10
             (\<lambda>i. get_latents_from_indices (vt_quantizer (vt s)) i (Some (- 1))) cond
             (temperature s) (amp s) = Inl e \<longrightarrow>
           returned (step s a) = Inl e \<and> session_after (step s a) = s)
      \<and> (forward_inference (dynamics s) lat (prediction_horizon s) 10
             (\<lambda>i. get_latents_from_indices (vt_quantizer (vt s)) i (Some (- 1))) cond
             (temperature s) (amp s) = Inr nl
           \<and> detokenize (vt s) nl = Inr nf \<and> nf \<noteq> [] \<and> shaped_like frames nf \<longrightarrow>
           returned (step s a) = Inr (to_uint8_rgb (last nf))
           \<and> session_after (step s a)
               = s\<lparr>generated_frames :=
                     Some (frames @ slice_from nf (- prediction_horizon s))\<rparr>))
   \<and> (returned (step s a) = Inr img \<longrightarrow>
        (\<exists>frames idx lat cond nl nf.
            generated_frames s = Some frames
          \<and> tokenize (vt s) (slice_from frames (- context_window s)) = Inr idx
          \<and> get_latents_from_indices (vt_quantizer (vt s)) idx None = Inr lat
          \<and> conditioned s a cond
          \<and> forward_inference (dynamics s) lat (prediction_horizon s) 10
                (\<lambda>i. get_latents_from_indices (vt_quantizer (vt s)) i (Some (- 1))) cond
                (temperature s) (amp s) = Inr nl
          \<and> detokenize (vt s) nl = Inr nf \<and> nf \<noteq> []
          \<and> img = to_uint8_rgb (last nf)
          \<and> session_after (step s a)
              = s\<lparr>generated_frames :=
                    Some (frames @ slice_from nf (- prediction_horizon s))\<rparr>))"
proof -
  have f: "session_after (step s a)
             = s\<lparr>generated_frames := generated_frames (session_after (step s a))\<rparr>"
    by (rule step_unchanged_fields)
  have fields: "vt (session_after (step s a)) = vt s" "lam (session_after (step s a)) = lam s"
    "dynamics (session_after (step s a)) = dynamics s"
    "device (session_after (step s a)) = device s"
    "context_window (session_after (step s a)) = context_window s"
    "temperature (session_after (step s a)) = temperature s"
    "prediction_horizon (session_after (step s a)) = prediction_horizon s"
    "amp (session_after (step s a)) = amp s"
    by (subst f, simp)+
  have args: "\<forall>l h n c t am. ForwardInferenceC l h n c t am \<in> set (calls (step s a))
         \<longrightarrow> n = 10 \<and> h = prediction_horizon s \<and> t = temperature s \<and> am = amp s"
    using step_forward_args [of _ _ _ _ _ _ s a] by blast
  have chain: "(forward_inference (dynamics s) lat (prediction_horizon s) 10
             (\<lambda>i. get_latents_from_indices (vt_quantizer (vt s)) i (Some (- 1))) cond
             (temperature s) (amp s) = Inl e \<longrightarrow>
           returned (step s a) = Inl e \<and> session_after (step s a) = s)
      \<and> (forward_inference (dynamics s) lat (prediction_horizon s) 10
             (\<lambda>i. get_latents_from_indices (vt_quantizer (vt s)) i (Some (- 1))) cond
             (temperature s) (amp s) = Inr nl
           \<and> detokenize (vt s) nl = Inr nf \<and> nf \<noteq> [] \<and> shaped_like frames nf \<longrightarrow>
           returned (step s a) = Inr (to_uint8_rgb (last nf))
           \<and> session_after (step s a)
               = s\<lparr>generated_frames :=
                     Some (frames @ slice_from nf (- prediction_horizon s))\<rparr>)"
    if g: "generated_frames s = Some frames"
      and t: "tokenize (vt s) (slice_from frames (- context_window s)) = Inr idx"
      and l: "get_latents_from_indices (vt_quantizer (vt s)) idx None = Inr lat"
      and c: "conditioned s a cond"
    using step_chain_raises(1) [OF g t l c, where e = e]
      step_chain_raises(3) [OF g t l c, where nl = nl and nf = nf]
    by blast
  have inv: "returned (step s a) = Inr img \<longrightarrow>
        (\<exists>frames idx lat cond nl nf.
            generated_frames s = Some frames
          \<and> tokenize (vt s) (slice_from frames (- context_window s)) = Inr idx
          \<and> get_latents_from_indices (vt_quantizer (vt s)) idx None = Inr lat
          \<and> conditioned s a cond
          \<and> forward_inference (dynamics s) lat (prediction_horizon s) 10
                (\<lambda>i. get_latents_from_indices (vt_quantizer (vt s)) i (Some (- 1))) cond
                (temperature s) (amp s) = Inr nl
          \<and> detokenize (vt s) nl = Inr nf \<and> nf \<noteq> []
          \<and> img = to_uint8_rgb (last nf)
          \<and> session_after (step s a)
              = s\<lparr>generated_frames :=
                    Some (frames @ slice_from nf (- prediction_horizon s))\<rparr>)"
    using step_chain_returned [of s a img] by blast
  show ?thesis
    by (intro conjI impI f fields args inv) (use chain in blast)+
qed

text \<open>
  On the strict session, whose dynamics model raises on any number of steps other than
  10.
\<close>

theorem step_frame_effect_witness:
  "generated_frames strict = Some [[[[1]]], [[[- 1]]]]
   \<and> tokenize (vt strict) (slice_from [[[[1]]], [[[- 1]]]] (- context_window strict))
       = Inr [[[[1]]], [[[- 1]]]]
   \<and> get_latents_from_indices (vt_quantizer (vt strict)) [[[[1]]], [[[- 1]]]] None
       = Inr [[[[1]]], [[[- 1]]]]
   \<and> conditioned strict 1 (Some 7)
   \<and> forward_inference (dynamics strict) [[[[1]]], [[[- 1]]]] (prediction_horizon strict) 10
        (\<lambda>i. get_latents_from_indices (vt_quantizer (vt strict)) i (Some (- 1))) (Some 7)
        (temperature strict) (amp strict) = Inr [[[[1]]], [[[- 1]]], [[[1]]]]
   \<and> forward_inference (dynamics strict) [[[[1]]], [[[- 1]]]] (prediction_horizon strict) 11
        (\<lambda>i. get_latents_from_indices (vt_quantizer (vt strict)) i (Some (- 1))) (Some 7)
        (temperature strict) (amp strict) = Inl (ModelError ''arguments'')
   \<and> detokenize (vt strict) [[[[1]]], [[[- 1]]], [[[1]]]] = Inr [[[[1]]], [[[- 1]]], [[[1]]]]
   \<and> returned (step strict 1) = Inr [[[255]]]
   \<and> session_after (step strict 1)
       = strict\<lparr>generated_frames := Some [[[[1]]], [[[- 1]]], [[[1]]]]\<rparr>
   \<and> context_window (session_after (step strict 1)) = context_window strict
   \<and> temperature (session_after (step strict 1)) = temperature strict
   \<and> prediction_horizon (session_after (step strict 1)) = prediction_horizon strict
   \<and> amp (session_after (step strict 1)) = amp strict
   \<and> device (session_after (step strict 1)) = device strict"
proof -
  note f = strict_facts
  note th = step_frame_effect [of strict 1 "[[[[1]]], [[[- 1]]]]" "[[[[1]]], [[[- 1]]]]"
      "[[[[1]]], [[[- 1]]]]" "Some 7" _ "[[[[1]]], [[[- 1]]], [[[1]]]]"
      "[[[[1]]], [[[- 1]]], [[[1]]]]"]
  have t: "tokenize (vt strict) (slice_from [[[[1]]], [[[- 1]]]] (- context_window strict))
       = Inr [[[[1]]], [[[- 1]]]]"
    by (simp add: f slice_from_def)
  have fw: "forward_inference (dynamics strict) [[[[1]]], [[[- 1]]]] (prediction_horizon strict) 10
        (\<lambda>i. get_latents_from_indices (vt_quantizer (vt strict)) i (Some (- 1))) (Some 7)
        (temperature strict) (amp strict) = Inr [[[[1]]], [[[- 1]]], [[[1]]]]"
    using f(14) by (simp add: f(5-7))
  have fw11: "forward_inference (dynamics strict) [[[[1]]], [[[- 1]]]] (prediction_horizon strict) 11
        (\<lambda>i. get_latents_from_indices (vt_quantizer (vt strict)) i (Some (- 1))) (Some 7)
        (temperature strict) (amp strict) = Inl (ModelError ''arguments'')"
    by (simp add: strict_def more_fake_defs fake_defs)
  have sl: "slice_from [[[[1]]], [[[- 1]]], [[[1::real]]]] (- prediction_horizon strict) = [[[[1]]]]"
    by (simp add: f slice_from_def)
  from th f(3) t f(10) conditioned_strict(1) fw f(11) shaped_like_pixels
  have r: "returned (step strict 1) = Inr (to_uint8_rgb (last [[[[1]]], [[[- 1]]], [[[1]]]]))"
    "session_after (step strict 1)
       = strict\<lparr>generated_frames := Some ([[[[1]]], [[[- 1]]]]
           @ slice_from [[[[1]]], [[[- 1]]], [[[1]]]] (- prediction_horizon strict))\<rparr>"
    by blast+
  from th have fl: "context_window (session_after (step strict 1)) = context_window strict"
    "temperature (session_after (step strict 1)) = temperature strict"
    "prediction_horizon (session_after (step strict 1)) = prediction_horizon strict"
    "amp (session_after (step strict 1)) = amp strict"
    "device (session_after (step strict 1)) = device strict"
    by blast+
  from r sl have r': "returned (step strict 1) = Inr [[[255]]]"
    "session_after (step strict 1)
       = strict\<lparr>generated_frames := Some [[[[1]]], [[[- 1]]], [[[1]]]]\<rparr>"
    by (simp_all add: white_pixel)
  from f(3) t f(10) conditioned_strict(1) fw fw11 f(11) r' fl show ?thesis
    by blast
qed

end
